theory Spec2Isabelle
  imports Main "HOL-Library.List_Lexorder" "HOL-Library.Char_ord"
begin

section \<open>JavaScript values used by the store layer\<close>

text \<open>
  The store modules (\<^verbatim>\<open>mockData.js\<close>, \<^verbatim>\<open>database.js\<close>) and the report trigger
  (\<^verbatim>\<open>index.js\<close>) use a handful of built-ins: \<^verbatim>\<open>String(n)\<close>, \<^verbatim>\<open>padStart\<close>,
  \<^verbatim>\<open>split\<close>, string comparison, \<^verbatim>\<open>parseInt\<close> and \<^verbatim>\<open>Date\<close>. They are modelled
  here after ECMA-262. Strings are \<^typ>\<open>string\<close>; their order is the lexicographic order
  on code units, which is what \<^verbatim>\<open>>=\<close> and \<^verbatim>\<open><=\<close> compute on two JavaScript strings.
\<close>

subsection \<open>Numbers as text\<close>

definition digito :: "nat \<Rightarrow> char" where
  "digito n = ''0123456789'' ! n"

text \<open>\<^verbatim>\<open>String(n)\<close> for a non-negative integer: its decimal digits.\<close>

fun String_nat :: "nat \<Rightarrow> string" where
  "String_nat n = (if n < 10 then [digito n] else String_nat (n div 10) @ [digito (n mod 10)])"

declare String_nat.simps [simp del]

text \<open>\<^verbatim>\<open>String(n)\<close> for an integer.\<close>

definition String_int :: "int \<Rightarrow> string" where
  "String_int i = (if i < 0 then CHR ''-'' # String_nat (nat (- i)) else String_nat (nat i))"

text \<open>\<^verbatim>\<open>s.padStart(n, c)\<close> with a one-character filler.\<close>

definition padStart :: "nat \<Rightarrow> char \<Rightarrow> string \<Rightarrow> string" where
  "padStart n c s = replicate (n - length s) c @ s"

text \<open>\<^verbatim>\<open>s.split(c)\<close> with a one-character separator; the result is never empty.\<close>

fun split :: "char \<Rightarrow> string \<Rightarrow> string list" where
  "split c [] = [[]]"
| "split c (x # xs) =
     (if x = c then [] # split c xs
      else (case split c xs of p # ps \<Rightarrow> (x # p) # ps | [] \<Rightarrow> [[x]]))"

text \<open>
  A JavaScript number that is an integer or \<^verbatim>\<open>NaN\<close>: \<open>None\<close> is \<^verbatim>\<open>NaN\<close>. Every
  arithmetic operation with \<^verbatim>\<open>NaN\<close> is \<^verbatim>\<open>NaN\<close>, every comparison with it is false.
\<close>

type_synonym js_number = "int option"

definition es_digito :: "char \<Rightarrow> bool" where
  "es_digito c = (c \<in> set ''0123456789'')"

definition valor_digito :: "char \<Rightarrow> nat" where
  "valor_digito c = of_char c - 48"

definition valor_decimal :: "string \<Rightarrow> nat" where
  "valor_decimal s = foldl (\<lambda>a c. 10 * a + valor_digito c) 0 s"

text \<open>
  \<^verbatim>\<open>ToNumber\<close> of a string, as the \<^verbatim>\<open>Date\<close> constructor applies it to its arguments,
  on the strings the month format \<^verbatim>\<open>"YYYY-MM"\<close> can produce: the empty string is 0, a
  string of decimal digits is its value. Every other text is read as \<^verbatim>\<open>NaN\<close>; signs,
  blanks, exponents and radix prefixes are outside this fragment.
\<close>

definition ToNumber :: "string \<Rightarrow> js_number" where
  "ToNumber s = (if list_all es_digito s then Some (int (valor_decimal s)) else None)"

text \<open>
  \<^verbatim>\<open>parseInt(s, 10)\<close>: leading blanks are skipped, an optional sign is read, then the
  longest run of decimal digits; no digit gives \<^verbatim>\<open>NaN\<close>.
\<close>

definition es_blanco :: "char \<Rightarrow> bool" where
  "es_blanco c = (c \<in> set [CHR '' '', CHR 0x09, CHR 0x0A, CHR 0x0B, CHR 0x0C, CHR 0x0D])"

definition parseInt :: "string \<Rightarrow> js_number" where
  "parseInt s =
     (let t = dropWhile es_blanco s;
          neg = (t \<noteq> [] \<and> hd t = CHR ''-'');
          u = (if t \<noteq> [] \<and> (hd t = CHR ''-'' \<or> hd t = CHR ''+'') then tl t else t);
          ds = takeWhile es_digito u
      in if ds = [] then None
         else Some ((if neg then - 1 else 1) * int (valor_decimal ds)))"

subsection \<open>Dates\<close>

text \<open>
  A \<^verbatim>\<open>Date\<close> holds a time value: milliseconds since 1970-01-01T00:00:00Z, at most
  8.64e15 in absolute value (\<open>TimeClip\<close>), or \<^verbatim>\<open>NaN\<close> (an invalid date). The functions below are the abstract operations of ECMA-262
  (section "Date Objects") under their own names. \<open>DayFromYear\<close> and the others work on
  day numbers and time values alike.
\<close>

datatype js_date = Fecha int | FechaInvalida

definition msPerDay :: int where
  "msPerDay = 86400000"

definition Day :: "int \<Rightarrow> int" where
  "Day t = t div msPerDay"

definition TimeWithinDay :: "int \<Rightarrow> int" where
  "TimeWithinDay t = t mod msPerDay"

definition DayFromYear :: "int \<Rightarrow> int" where
  "DayFromYear y =
     365 * (y - 1970) + (y - 1969) div 4 - (y - 1901) div 100 + (y - 1601) div 400"

definition DaysInYear :: "int \<Rightarrow> int" where
  "DaysInYear y =
     (if y mod 4 \<noteq> 0 then 365
      else if y mod 100 \<noteq> 0 then 366
      else if y mod 400 \<noteq> 0 then 365
      else 366)"

text \<open>
  The year of a day number: the largest \<open>y\<close> with \<open>DayFromYear y \<le> d\<close>. It is computed
  from an estimate that is off by at most one year (lemma \<open>YearFromDay_cotas\<close>).
\<close>

definition YearFromDay :: "int \<Rightarrow> int" where
  "YearFromDay d =
     (let g = 1970 + (400 * d) div 146097
      in if DayFromYear (g + 1) \<le> d then g + 1
         else if DayFromYear g \<le> d then g
         else g - 1)"

definition YearFromTime :: "int \<Rightarrow> int" where
  "YearFromTime t = YearFromDay (Day t)"

definition InLeapYear :: "int \<Rightarrow> int" where
  "InLeapYear t = (if DaysInYear (YearFromTime t) = 366 then 1 else 0)"

definition DayWithinYear :: "int \<Rightarrow> int" where
  "DayWithinYear t = Day t - DayFromYear (YearFromTime t)"

text \<open>The day within the year on which month \<open>m\<close> (0 to 11) starts; \<open>l\<close> is 1 in a leap year.\<close>

definition inicioMes :: "int \<Rightarrow> int \<Rightarrow> int" where
  "inicioMes l m =
     (if m = 0 then 0 else if m = 1 then 31 else if m = 2 then 59 + l
      else if m = 3 then 90 + l else if m = 4 then 120 + l else if m = 5 then 151 + l
      else if m = 6 then 181 + l else if m = 7 then 212 + l else if m = 8 then 243 + l
      else if m = 9 then 273 + l else if m = 10 then 304 + l else 334 + l)"

definition MonthFromTime :: "int \<Rightarrow> int" where
  "MonthFromTime t =
     (let d = DayWithinYear t; l = InLeapYear t
      in if d < 31 then 0 else if d < 59 + l then 1 else if d < 90 + l then 2
         else if d < 120 + l then 3 else if d < 151 + l then 4 else if d < 181 + l then 5
         else if d < 212 + l then 6 else if d < 243 + l then 7 else if d < 273 + l then 8
         else if d < 304 + l then 9 else if d < 334 + l then 10 else 11)"

definition DateFromTime :: "int \<Rightarrow> int" where
  "DateFromTime t = DayWithinYear t - inicioMes (InLeapYear t) (MonthFromTime t) + 1"

definition WeekDay :: "int \<Rightarrow> int" where
  "WeekDay t = (Day t + 4) mod 7"

definition MakeDay :: "int \<Rightarrow> int \<Rightarrow> int \<Rightarrow> int" where
  "MakeDay year month date =
     (let ym = year + month div 12; mn = month mod 12
      in DayFromYear ym + inicioMes (if DaysInYear ym = 366 then 1 else 0) mn + date - 1)"

definition MakeDate :: "int \<Rightarrow> int \<Rightarrow> int" where
  "MakeDate day time = day * msPerDay + time"

definition TimeClip :: "int \<Rightarrow> js_date" where
  "TimeClip t = (if \<bar>t\<bar> > 8640000000000000 then FechaInvalida else Fecha t)"

text \<open>
  The local time zone of the process is a parameter \<open>tza\<close>: the offset of local time
  from UTC in milliseconds, taken as constant (Venezuela, where the clinic is, has no
  daylight saving time).
\<close>

definition LocalTime :: "int \<Rightarrow> int \<Rightarrow> int" where
  "LocalTime tza t = t + tza"

definition UTC :: "int \<Rightarrow> int \<Rightarrow> int" where
  "UTC tza t = t - tza"

text \<open>\<^verbatim>\<open>fecha.getDay()\<close>: the weekday of the local time, 0 for Sunday; \<^verbatim>\<open>NaN\<close> when invalid.\<close>

fun getDay :: "int \<Rightarrow> js_date \<Rightarrow> js_number" where
  "getDay tza (Fecha t) = Some (WeekDay (LocalTime tza t))"
| "getDay tza FechaInvalida = None"

text \<open>\<^verbatim>\<open>fecha.getDate()\<close>: the day of the month of the local time.\<close>

fun getDate :: "int \<Rightarrow> js_date \<Rightarrow> js_number" where
  "getDate tza (Fecha t) = Some (DateFromTime (LocalTime tza t))"
| "getDate tza FechaInvalida = None"

text \<open>
  \<^verbatim>\<open>new Date(year, month, date)\<close>: the arguments are numbers; a year from 0 to 99 means
  1900 to 1999; the fields are read as local time.
\<close>

definition nuevaFecha :: "int \<Rightarrow> js_number \<Rightarrow> js_number \<Rightarrow> js_number \<Rightarrow> js_date" where
  "nuevaFecha tza year month date =
     (case (year, month, date) of
        (Some y, Some m, Some dt) \<Rightarrow>
          (let yr = (if 0 \<le> y \<and> y \<le> 99 then 1900 + y else y)
           in TimeClip (UTC tza (MakeDate (MakeDay yr m dt) 0)))
      | _ \<Rightarrow> FechaInvalida)"

text \<open>
  \<^verbatim>\<open>fecha.setDate(dt)\<close>: the day of the month of the local time is replaced, the
  other local fields are kept, and days outside the month carry over.
\<close>

fun setDate :: "int \<Rightarrow> js_date \<Rightarrow> js_number \<Rightarrow> js_date" where
  "setDate tza (Fecha t) (Some dt) =
     (let l = LocalTime tza t
      in TimeClip (UTC tza (MakeDate (MakeDay (YearFromTime l) (MonthFromTime l) dt)
                                     (TimeWithinDay l))))"
| "setDate tza _ _ = FechaInvalida"

definition pad2 :: "int \<Rightarrow> string" where
  "pad2 n = padStart 2 (CHR ''0'') (String_int n)"

text \<open>
  \<^verbatim>\<open>fecha.toISOString()\<close>: the UTC fields as \<^verbatim>\<open>YYYY-MM-DDTHH:mm:ss.sssZ\<close>; years
  outside 0 to 9999 are written with a sign and six digits. An invalid date throws a
  \<^verbatim>\<open>RangeError\<close>, here \<open>None\<close>.
\<close>

definition anioISO :: "int \<Rightarrow> string" where
  "anioISO y =
     (if 0 \<le> y \<and> y \<le> 9999 then padStart 4 (CHR ''0'') (String_int y)
      else (if y < 0 then CHR ''-'' else CHR ''+'') # padStart 6 (CHR ''0'') (String_nat (nat \<bar>y\<bar>)))"

definition fechaISO_de :: "int \<Rightarrow> string" where
  "fechaISO_de t =
     anioISO (YearFromTime t) @ ''-'' @ pad2 (MonthFromTime t + 1) @ ''-'' @ pad2 (DateFromTime t)"

definition horaISO_de :: "int \<Rightarrow> string" where
  "horaISO_de t =
     (let w = TimeWithinDay t
      in pad2 (w div 3600000) @ '':'' @ pad2 (w div 60000 mod 60) @ '':''
         @ pad2 (w div 1000 mod 60) @ ''.'' @ padStart 3 (CHR ''0'') (String_int (w mod 1000)))"

fun toISOString :: "js_date \<Rightarrow> string option" where
  "toISOString (Fecha t) = Some (fechaISO_de t @ ''T'' @ horaISO_de t @ ''Z'')"
| "toISOString FechaInvalida = None"

text \<open>
  The idiom \<^verbatim>\<open>fecha.toISOString().split('T')[0]\<close> of both store modules: the date part
  of the ISO text, or the thrown \<^verbatim>\<open>RangeError\<close>.
\<close>

definition toISOString_fecha :: "js_date \<Rightarrow> string option" where
  "toISOString_fecha fecha = map_option (\<lambda>s. hd (split (CHR ''T'') s)) (toISOString fecha)"

text \<open>Template interpolation \<^verbatim>\<open>${n}\<close> of a number.\<close>

definition String_number :: "js_number \<Rightarrow> string" where
  "String_number n = (case n of None \<Rightarrow> ''NaN'' | Some i \<Rightarrow> String_int i)"

section \<open>The booking records\<close>

text \<open>
  A request as the conversation layer hands it to the store (\<^verbatim>\<open>datosSolicitud\<close>), and
  the stored request, which is the same object with the \<^verbatim>\<open>id\<close> and \<^verbatim>\<open>created_at\<close> the
  store adds. The request types in use are \<^verbatim>\<open>'consulta'\<close>, \<^verbatim>\<open>'ecor'\<close>,
  \<^verbatim>\<open>'reembolso'\<close> and \<^verbatim>\<open>'emergencia'\<close>; the field is a free string, as in the source.
  \<^verbatim>\<open>numero_turno\<close> is \<open>None\<close> when the request carries no ticket.
\<close>

record datos_solicitud =
  tipo_solicitud :: string
  fecha_solicitud :: string
  cedula :: string
  numero_turno :: "string option"
  nombre_paciente :: string
  apellido_paciente :: string
  hora_solicitud :: string

record solicitud = datos_solicitud +
  id :: nat
  created_at :: string

text \<open>The object \<^verbatim>\<open>{ id: i, ...datosSolicitud, created_at: t }\<close>.\<close>

definition registro :: "nat \<Rightarrow> datos_solicitud \<Rightarrow> string \<Rightarrow> solicitud" where
  "registro i d t =
     \<lparr> tipo_solicitud = tipo_solicitud d, fecha_solicitud = fecha_solicitud d,
       cedula = cedula d, numero_turno = numero_turno d,
       nombre_paciente = nombre_paciente d, apellido_paciente = apellido_paciente d,
       hora_solicitud = hora_solicitud d, id = i, created_at = t \<rparr>"

section \<open>The in-memory store (\<^verbatim>\<open>mockData.js\<close>)\<close>

text \<open>
  The module state: the array \<^verbatim>\<open>solicitudes\<close>, appended at the tail only, and the
  counter \<^verbatim>\<open>idCounter\<close>. Every function takes the state; \<open>crearSolicitud\<close> returns the
  new one.
\<close>

record mock =
  solicitudes :: "solicitud list"
  idCounter :: nat

definition estado_inicial :: mock where
  "estado_inicial = \<lparr> solicitudes = [], idCounter = 1 \<rparr>"

definition resetMockData :: "mock \<Rightarrow> mock" where
  "resetMockData st = \<lparr> solicitudes = [], idCounter = 1 \<rparr>"

definition configuracion :: "string \<Rightarrow> int option" where
  "configuracion = map_of
     [(''cupos_consulta'', 15), (''cupos_consulta_miercoles'', 10), (''cupos_reembolso'', 20)]"

text \<open>\<^verbatim>\<open>configuracion[claveLimite] || 15\<close>: an absent key and a zero both give 15.\<close>

definition limite_o_15 :: "int option \<Rightarrow> int" where
  "limite_o_15 v = (case v of None \<Rightarrow> 15 | Some n \<Rightarrow> if n = 0 then 15 else n)"

definition claveLimite_de :: "string \<Rightarrow> js_number \<Rightarrow> string" where
  "claveLimite_de tipo diaSemana =
     (if tipo = ''consulta'' \<and> diaSemana = Some 3 then ''cupos_consulta_miercoles''
      else ''cupos_'' @ tipo)"

definition tipoQuery_de :: "string \<Rightarrow> string list" where
  "tipoQuery_de tipo = (if tipo = ''consulta'' then [''consulta'', ''ecor''] else [''reembolso''])"

definition tipoSolicitudQuery_de :: "string \<Rightarrow> string list" where
  "tipoSolicitudQuery_de prefijo =
     (if prefijo = ''R'' then [''reembolso''] else [''consulta'', ''ecor''])"

text \<open>
  \<^verbatim>\<open>getCuposDisponibles(tipo, fecha)\<close>. The only statement of the \<^verbatim>\<open>try\<close> block that
  can throw on a \<^verbatim>\<open>Date\<close> is \<^verbatim>\<open>toISOString\<close>, on an invalid date; the \<^verbatim>\<open>catch\<close>
  returns 0.
\<close>

definition getCuposDisponibles :: "int \<Rightarrow> mock \<Rightarrow> string \<Rightarrow> js_date \<Rightarrow> int" where
  "getCuposDisponibles tza st tipo fecha =
     (let diaSemana = getDay tza fecha;
          claveLimite = claveLimite_de tipo diaSemana;
          limiteCupos = limite_o_15 (configuracion claveLimite)
      in case toISOString_fecha fecha of
           None \<Rightarrow> 0
         | Some fechaISO \<Rightarrow>
             (let tipoQuery = tipoQuery_de tipo;
                  count = length (filter (\<lambda>s. tipo_solicitud s \<in> set tipoQuery
                                             \<and> fecha_solicitud s = fechaISO) (solicitudes st))
              in limiteCupos - int count))"

text \<open>\<^verbatim>\<open>getSiguienteNumeroTurno(prefijo, fecha)\<close>; \<open>None\<close> is the \<^verbatim>\<open>null\<close> of the \<^verbatim>\<open>catch\<close>.\<close>

definition getSiguienteNumeroTurno :: "mock \<Rightarrow> string \<Rightarrow> js_date \<Rightarrow> string option" where
  "getSiguienteNumeroTurno st prefijo fecha =
     (case toISOString_fecha fecha of
        None \<Rightarrow> None
      | Some fechaISO \<Rightarrow>
          (let tipoSolicitudQuery = tipoSolicitudQuery_de prefijo;
               count = length (filter (\<lambda>s. fecha_solicitud s = fechaISO
                                          \<and> tipo_solicitud s \<in> set tipoSolicitudQuery)
                                      (solicitudes st));
               nuevoNumero = count + 1
           in Some (prefijo @ ''-'' @ padStart 3 (CHR ''0'') (String_nat nuevoNumero))))"

text \<open>
  \<^verbatim>\<open>crearSolicitud(datosSolicitud)\<close>; \<open>ahora\<close> is \<^verbatim>\<open>new Date().toISOString()\<close>. Nothing
  in the \<^verbatim>\<open>try\<close> block throws on a request object, so the result is never \<^verbatim>\<open>null\<close>.
\<close>

definition crearSolicitud :: "string \<Rightarrow> mock \<Rightarrow> datos_solicitud \<Rightarrow> solicitud option \<times> mock" where
  "crearSolicitud ahora st datosSolicitud =
     (let nuevaSolicitud = registro (idCounter st) datosSolicitud ahora
      in (Some nuevaSolicitud,
          \<lparr> solicitudes = solicitudes st @ [nuevaSolicitud], idCounter = idCounter st + 1 \<rparr>))"


text \<open>
  The last day of the month of \<^verbatim>\<open>mesString\<close>, as both store modules compute it:
  \<^verbatim>\<open>const [year, month] = mesString.split('-')\<close>, then
  \<^verbatim>\<open>new Date(year, month, 0).getDate()\<close>. A missing second part is \<^verbatim>\<open>undefined\<close>, whose
  number is \<^verbatim>\<open>NaN\<close>.
\<close>

definition lastDay_de :: "int \<Rightarrow> string \<Rightarrow> js_number" where
  "lastDay_de tza mesString =
     (let partes = split (CHR ''-'') mesString;
          year = ToNumber (hd partes);
          month = (case tl partes of [] \<Rightarrow> None | m # _ \<Rightarrow> ToNumber m)
      in getDate tza (nuevaFecha tza year month (Some 0)))"

definition startDate_de :: "string \<Rightarrow> string" where
  "startDate_de mesString = mesString @ ''-01''"

definition endDate_de :: "int \<Rightarrow> string \<Rightarrow> string" where
  "endDate_de tza mesString = mesString @ ''-'' @ String_number (lastDay_de tza mesString)"

definition getDatosReporteMensual :: "int \<Rightarrow> mock \<Rightarrow> string \<Rightarrow> solicitud list" where
  "getDatosReporteMensual tza st mesString =
     (let startDate = startDate_de mesString;
          endDate = endDate_de tza mesString
      in filter (\<lambda>s. fecha_solicitud s \<ge> startDate \<and> fecha_solicitud s \<le> endDate)
                (solicitudes st))"

text \<open>\<^verbatim>\<open>checkExistingAppointment(cedula, fecha)\<close>; the \<^verbatim>\<open>catch\<close> returns \<^verbatim>\<open>false\<close>.\<close>

definition checkExistingAppointment :: "mock \<Rightarrow> string \<Rightarrow> js_date \<Rightarrow> bool" where
  "checkExistingAppointment st ced fecha =
     (case toISOString_fecha fecha of
        None \<Rightarrow> False
      | Some fechaISO \<Rightarrow>
          (let existente = find (\<lambda>s. cedula s = ced \<and> fecha_solicitud s = fechaISO
                                     \<and> tipo_solicitud s \<in> set [''consulta'', ''ecor''])
                                (solicitudes st)
           in existente \<noteq> None))"

definition getAllSolicitudes :: "mock \<Rightarrow> solicitud list" where
  "getAllSolicitudes st = solicitudes st"

section \<open>The durable store (\<^verbatim>\<open>database.js\<close>, taken when Supabase is configured)\<close>

subsection \<open>The Supabase client\<close>

text \<open>
  Every query of the client resolves to an object \<^verbatim>\<open>{ data, error }\<close> (or
  \<^verbatim>\<open>{ count, error }\<close>): either the payload or an error with its message.
\<close>

datatype 'a respuesta = Exito 'a | Falla string

text \<open>
  Modelled from the spec: the durable backend of section 4.2, which answers the store's
  calls as server-side filtered queries and may fail with a store error. The client
  (\<^verbatim>\<open>supabaseClient.js\<close>) and the service behind it are not among the sources. The
  backend is two tables and a switch, with the query semantics the supabase-js
  documentation gives:
  \<^item> a service that is not reachable answers every query with an error;
  \<^item> \<^verbatim>\<open>.single()\<close> is an error unless exactly one row matches;
  \<^item> \<^verbatim>\<open>.maybeSingle()\<close> is \<^verbatim>\<open>null\<close> data on no row, the row on one, an error on more;
  \<^item> \<^verbatim>\<open>select('*', { count: 'exact', head: true })\<close> counts the matching rows;
  \<^item> \<^verbatim>\<open>insert([row]).select().single()\<close> appends the row, with the \<^verbatim>\<open>id\<close> and
    \<^verbatim>\<open>created_at\<close> the table assigns, and returns it;
  \<^item> rows are returned in insertion order, and \<^verbatim>\<open>fecha_solicitud\<close> is compared as text.
  The functions of \<^verbatim>\<open>database.js\<close> below see the service through these queries only.
\<close>

record supabase =
  tabla_solicitudes :: "solicitud list"
  tabla_configuracion :: "(string \<times> string) list"
  siguiente_id :: nat
  en_linea :: bool

text \<open>Modelled from the spec: the messages of the two store errors the queries can report.\<close>

definition sin_conexion :: string where
  "sin_conexion = ''fetch failed''"

definition no_unica :: string where
  "no_unica = ''JSON object requested, multiple (or no) rows returned''"

text \<open>Modelled from the spec: the query \<^verbatim>\<open>from('configuracion').select('valor').eq('clave', clave).single()\<close>.\<close>

definition consulta_configuracion :: "supabase \<Rightarrow> string \<Rightarrow> string respuesta" where
  "consulta_configuracion bd clave =
     (if \<not> en_linea bd then Falla sin_conexion
      else (case filter (\<lambda>r. fst r = clave) (tabla_configuracion bd) of
              [r] \<Rightarrow> Exito (snd r)
            | _ \<Rightarrow> Falla no_unica))"

text \<open>
  Modelled from the spec: the query
  \<^verbatim>\<open>from('solicitudes').select('*', { count: 'exact', head: true })
  .in('tipo_solicitud', tipos).eq('fecha_solicitud', fecha)\<close>
\<close>

definition cuenta_solicitudes :: "supabase \<Rightarrow> string list \<Rightarrow> string \<Rightarrow> nat respuesta" where
  "cuenta_solicitudes bd tipos fecha =
     (if \<not> en_linea bd then Falla sin_conexion
      else Exito (length (filter (\<lambda>s. tipo_solicitud s \<in> set tipos \<and> fecha_solicitud s = fecha)
                                 (tabla_solicitudes bd))))"

text \<open>
  Modelled from the spec: the query \<^verbatim>\<open>from('solicitudes').insert([datos]).select().single()\<close>.
  \<^verbatim>\<open>database.js\<close> sends the fields of the request only; the first argument is the
  \<^verbatim>\<open>created_at\<close> the table assigns to the row, and the \<^verbatim>\<open>id\<close> is the table's next one.
\<close>

definition inserta_solicitud ::
  "string \<Rightarrow> supabase \<Rightarrow> datos_solicitud \<Rightarrow> solicitud respuesta \<times> supabase" where
  "inserta_solicitud ahora bd datos =
     (if \<not> en_linea bd then (Falla sin_conexion, bd)
      else (let fila = registro (siguiente_id bd) datos ahora
            in (Exito fila,
                bd \<lparr> tabla_solicitudes := tabla_solicitudes bd @ [fila],
                     siguiente_id := siguiente_id bd + 1 \<rparr>)))"


text \<open>
  Modelled from the spec: the query
  \<^verbatim>\<open>from('solicitudes').select('*').gte('fecha_solicitud', desde)
  .lte('fecha_solicitud', hasta)\<close>
\<close>

definition selecciona_rango :: "supabase \<Rightarrow> string \<Rightarrow> string \<Rightarrow> solicitud list respuesta" where
  "selecciona_rango bd desde hasta =
     (if \<not> en_linea bd then Falla sin_conexion
      else Exito (filter (\<lambda>s. fecha_solicitud s \<ge> desde \<and> fecha_solicitud s \<le> hasta)
                         (tabla_solicitudes bd)))"

text \<open>
  Modelled from the spec: the query
  \<^verbatim>\<open>from('solicitudes').select('id').eq('cedula', ced).eq('fecha_solicitud', fecha)
  .in('tipo_solicitud', tipos).maybeSingle()\<close>
\<close>

definition busca_cita :: "supabase \<Rightarrow> string \<Rightarrow> string \<Rightarrow> string list \<Rightarrow> nat option respuesta" where
  "busca_cita bd ced fecha tipos =
     (if \<not> en_linea bd then Falla sin_conexion
      else (case filter (\<lambda>s. cedula s = ced \<and> fecha_solicitud s = fecha
                              \<and> tipo_solicitud s \<in> set tipos) (tabla_solicitudes bd) of
              [] \<Rightarrow> Exito None
            | [s] \<Rightarrow> Exito (Some (id s))
            | _ \<Rightarrow> Falla no_unica))"

subsection \<open>The exported functions\<close>

text \<open>
  Each function is one \<^verbatim>\<open>try\<close> block: an error of a query is thrown
  (\<^verbatim>\<open>if (error) throw error\<close>), as is the \<^verbatim>\<open>RangeError\<close> of an invalid date, and the
  \<^verbatim>\<open>catch\<close> logs it and returns a fixed value. The result of
  \<open>getCuposDisponibles_supabase\<close> is \<^verbatim>\<open>limiteCupos - count\<close>, which is \<^verbatim>\<open>NaN\<close> when the
  configured value is not a number.
\<close>

definition getCuposDisponibles_supabase :: "int \<Rightarrow> supabase \<Rightarrow> string \<Rightarrow> js_date \<Rightarrow> js_number" where
  "getCuposDisponibles_supabase tza bd tipo fecha =
     (let diaSemana = getDay tza fecha;
          claveLimite = claveLimite_de tipo diaSemana
      in case consulta_configuracion bd claveLimite of
           Falla configError \<Rightarrow> Some 0
         | Exito valor \<Rightarrow>
             (let limiteCupos = parseInt valor
              in case toISOString_fecha fecha of
                   None \<Rightarrow> Some 0
                 | Some fechaISO \<Rightarrow>
                     (case cuenta_solicitudes bd (tipoQuery_de tipo) fechaISO of
                        Falla countError \<Rightarrow> Some 0
                      | Exito count \<Rightarrow> map_option (\<lambda>l. l - int count) limiteCupos)))"


text \<open>
  \<^verbatim>\<open>crearSolicitud\<close>: the error of the insert is thrown inside the \<^verbatim>\<open>try\<close>, caught,
  logged, and the function returns \<^verbatim>\<open>null\<close> (\<open>None\<close>).
\<close>

definition crearSolicitud_supabase ::
  "string \<Rightarrow> supabase \<Rightarrow> datos_solicitud \<Rightarrow> solicitud option \<times> supabase" where
  "crearSolicitud_supabase ahora bd datosSolicitud =
     (case inserta_solicitud ahora bd datosSolicitud of
        (Falla error, bd') \<Rightarrow> (None, bd')
      | (Exito data, bd') \<Rightarrow> (Some data, bd'))"


definition getDatosReporteMensual_supabase :: "int \<Rightarrow> supabase \<Rightarrow> string \<Rightarrow> solicitud list" where
  "getDatosReporteMensual_supabase tza bd mesString =
     (let startDate = startDate_de mesString;
          endDate = endDate_de tza mesString
      in case selecciona_rango bd startDate endDate of
           Falla error \<Rightarrow> []
         | Exito data \<Rightarrow> data)"

definition checkExistingAppointment_supabase :: "supabase \<Rightarrow> string \<Rightarrow> js_date \<Rightarrow> bool" where
  "checkExistingAppointment_supabase bd ced fecha =
     (case toISOString_fecha fecha of
        None \<Rightarrow> False
      | Some fechaISO \<Rightarrow>
          (case busca_cita bd ced fechaISO [''consulta'', ''ecor''] of
             Falla error \<Rightarrow> False
           | Exito data \<Rightarrow> data \<noteq> None))"

section \<open>The report trigger (\<^verbatim>\<open>index.js\<close>)\<close>

text \<open>
  \<^verbatim>\<open>getReportDateString()\<close> reads the clock; the instant \<open>t\<close> it reads is a parameter.
  \<^verbatim>\<open>new Date().toLocaleString("en-US", { timeZone: "America/Caracas" })\<close> writes the wall
  clock of Caracas at that instant, to the second, and \<^verbatim>\<open>new Date(text)\<close> reads it back
  as local time: \<open>ahora\<close> is the date whose local fields are that wall clock.

  The offset of \<^verbatim>\<open>America/Caracas\<close> is the one of the time zone database for instants
  from 1965 on: UTC-04:00, except UTC-04:30 from 2007-12-09T07:00:00Z until
  2016-05-01T07:00:00Z.
\<close>

definition tzaCaracas :: "int \<Rightarrow> int" where
  "tzaCaracas t =
     (if 1197183600000 \<le> t \<and> t < 1462086000000 then - 16200000 else - 14400000)"

definition ahora_Caracas :: "int \<Rightarrow> int \<Rightarrow> js_date" where
  "ahora_Caracas tza t = TimeClip (UTC tza (LocalTime (tzaCaracas t) t div 1000 * 1000))"

text \<open>
  \<^verbatim>\<open>fecha.toLocaleDateString('en-CA')\<close>: the local date as year, month and day, the
  year in decimal digits (years from 1 on), month and day in two digits.
\<close>

fun toLocaleDateString_enCA :: "int \<Rightarrow> js_date \<Rightarrow> string" where
  "toLocaleDateString_enCA tza (Fecha t) =
     (let l = LocalTime tza t
      in String_int (YearFromTime l) @ ''-'' @ pad2 (MonthFromTime l + 1) @ ''-''
         @ pad2 (DateFromTime l))"
| "toLocaleDateString_enCA tza FechaInvalida = ''Invalid Date''"

definition getReportDateString :: "int \<Rightarrow> int \<Rightarrow> string" where
  "getReportDateString tza t =
     (let ahora = ahora_Caracas tza t;
          diaDeLaSemana = getDay tza ahora;
          fechaDelReporte =
            (if diaDeLaSemana = Some 1
             then setDate tza ahora (map_option (\<lambda>d. d - 3) (getDate tza ahora))
             else setDate tza ahora (map_option (\<lambda>d. d - 1) (getDate tza ahora)))
      in toLocaleDateString_enCA tza fechaDelReporte)"

section \<open>The calendar of the specification\<close>

text \<open>
  The last day of a month as the specification words it: 28 to 31, depending on the
  month and on whether the year is a leap year. Months are numbered from 1.
\<close>

definition bisiesto :: "int \<Rightarrow> bool" where
  "bisiesto y = (y mod 4 = 0 \<and> (y mod 100 \<noteq> 0 \<or> y mod 400 = 0))"

definition dias_del_mes :: "int \<Rightarrow> int \<Rightarrow> int" where
  "dias_del_mes y m =
     (if m = 2 then (if bisiesto y then 29 else 28)
      else if m = 4 \<or> m = 6 \<or> m = 9 \<or> m = 11 then 30
      else 31)"

section \<open>The allocation service\<close>

text \<open>
  Modelled from the spec: the caller that books a slot (\<^verbatim>\<open>messageHandler.js\<close>) is not
  among the sources. The errors are those of section 7 of the specification, the request
  is the structured booking request of section 6.
\<close>

datatype AllocationError = DuplicateBookingError | CapacityExceededError | StoreError

record peticion =
  requestType :: string
  date :: js_date
  patientId :: string
  patientGivenName :: string
  patientFamilyName :: string
  hora :: string

text \<open>
  Modelled from the spec: consultations and annual exams share one ticket family.
\<close>

definition familia_consulta :: "string \<Rightarrow> bool" where
  "familia_consulta t = (t = ''consulta'' \<or> t = ''ecor'')"

text \<open>
  Modelled from the spec: the record built in step 5 of section 4.3, before the store
  adds its \<^verbatim>\<open>id\<close>.
\<close>

definition datos_de :: "peticion \<Rightarrow> string \<Rightarrow> string option \<Rightarrow> datos_solicitud" where
  "datos_de p fechaISO turno =
     \<lparr> tipo_solicitud = requestType p, fecha_solicitud = fechaISO, cedula = patientId p,
       numero_turno = turno, nombre_paciente = patientGivenName p,
       apellido_paciente = patientFamilyName p, hora_solicitud = hora p \<rparr>"

text \<open>
  Modelled from the spec: the insert of step 5; a store that returns no record is a
  \<open>StoreError\<close>.
\<close>

definition insertar :: "string \<Rightarrow> mock \<Rightarrow> datos_solicitud \<Rightarrow> (AllocationError + solicitud) \<times> mock" where
  "insertar ahora st d =
     (case crearSolicitud ahora st d of
        (None, st') \<Rightarrow> (Inl StoreError, st')
      | (Some r, st') \<Rightarrow> (Inr r, st'))"

text \<open>
  Modelled from the spec: \<open>bookSlot\<close> of section 4.3, whose source
  (\<^verbatim>\<open>messageHandler.js\<close>) is missing, step by step over the in-memory store and
  calling the store functions above:
  \<^enum> an emergency skips the checks and is inserted without a ticket number;
  \<^enum> a consultation or annual exam is refused with \<open>DuplicateBookingError\<close> when the
    patient already holds one on that date; a reimbursement is never duplicate-blocked;
  \<^enum> a remaining capacity of zero or less is refused with \<open>CapacityExceededError\<close>;
  \<^enum> the ticket number is the next one of the family (\<^verbatim>\<open>C\<close> or \<^verbatim>\<open>R\<close>);
  \<^enum> the record is built and inserted; a store that returns no ticket is a
    \<open>StoreError\<close>.
  The specification's dates are always valid; a request with an invalid \<^verbatim>\<open>Date\<close> is
  given \<open>StoreError\<close> here.
\<close>

definition bookSlot ::
  "int \<Rightarrow> string \<Rightarrow> mock \<Rightarrow> peticion \<Rightarrow> (AllocationError + solicitud) \<times> mock" where
  "bookSlot tza ahora st p =
     (case toISOString_fecha (date p) of
        None \<Rightarrow> (Inl StoreError, st)
      | Some fechaISO \<Rightarrow>
          if requestType p = ''emergencia'' then insertar ahora st (datos_de p fechaISO None)
          else if familia_consulta (requestType p)
                  \<and> checkExistingAppointment st (patientId p) (date p)
          then (Inl DuplicateBookingError, st)
          else if getCuposDisponibles tza st
                    (if familia_consulta (requestType p) then ''consulta'' else ''reembolso'')
                    (date p) \<le> 0
          then (Inl CapacityExceededError, st)
          else (case getSiguienteNumeroTurno st
                       (if familia_consulta (requestType p) then ''C'' else ''R'') (date p) of
                  None \<Rightarrow> (Inl StoreError, st)
                | Some turno \<Rightarrow> insertar ahora st (datos_de p fechaISO (Some turno))))"

text \<open>
  Modelled from the spec: a sequence of bookings, one after the other (section 5: each
  request completes before the next), each with the time it is made at.
\<close>

fun bookSlots ::
  "int \<Rightarrow> mock \<Rightarrow> (string \<times> peticion) list \<Rightarrow> (AllocationError + solicitud) list \<times> mock" where
  "bookSlots tza st [] = ([], st)"
| "bookSlots tza st ((ahora, p) # ps) =
     (case bookSlot tza ahora st p of
        (r, st') \<Rightarrow> (case bookSlots tza st' ps of (rs, st'') \<Rightarrow> (r # rs, st'')))"

text \<open>The count both store modules take: the requests of the given types on a date.\<close>

definition cuenta :: "solicitud list \<Rightarrow> string list \<Rightarrow> string \<Rightarrow> nat" where
  "cuenta xs tipos fechaISO =
     length (filter (\<lambda>s. tipo_solicitud s \<in> set tipos \<and> fecha_solicitud s = fechaISO) xs)"

text \<open>The ticket text \<^verbatim>\<open>prefix-NNN\<close> of the specification.\<close>

definition turno_texto :: "string \<Rightarrow> nat \<Rightarrow> string" where
  "turno_texto prefijo n = prefijo @ ''-'' @ padStart 3 (CHR ''0'') (String_nat n)"

text \<open>The requests of a store that are not emergencies.\<close>

definition sin_emergencias :: "solicitud list \<Rightarrow> solicitud list" where
  "sin_emergencias xs = filter (\<lambda>s. tipo_solicitud s \<noteq> ''emergencia'') xs"

section \<open>The two stores side by side\<close>











section \<open>Concrete stores and requests\<close>

text \<open>
  The inputs at which the theorems below are instantiated. \<open>miercoles\<close> is
  2024-01-03T00:00:00Z, a Wednesday.
\<close>

definition miercoles :: js_date where
  "miercoles = Fecha 1704240000000"

definition paciente_a :: peticion where
  "paciente_a = \<lparr> requestType = ''consulta'', date = miercoles, patientId = ''V-100'',
       patientGivenName = ''Ana'', patientFamilyName = ''Perez'', hora = ''08:00'' \<rparr>"

definition paciente_b :: peticion where
  "paciente_b = \<lparr> requestType = ''ecor'', date = miercoles, patientId = ''V-200'',
       patientGivenName = ''Luis'', patientFamilyName = ''Rojas'', hora = ''08:05'' \<rparr>"

definition bd_vacia :: supabase where
  "bd_vacia = \<lparr> tabla_solicitudes = [],
       tabla_configuracion = [(''cupos_consulta'', ''15''), (''cupos_consulta_miercoles'', ''10''),
                              (''cupos_reembolso'', ''20'')],
       siguiente_id = 1, en_linea = True \<rparr>"

text \<open>A store holding \<open>n\<close> consultations for 2024-01-03, all of one patient.\<close>

definition lleno :: "nat \<Rightarrow> mock" where
  "lleno n = \<lparr> solicitudes = map (\<lambda>i. registro i (datos_de paciente_a ''2024-01-03'' None) ''t'') [1..<Suc n],
               idCounter = Suc n \<rparr>"

text \<open>
  A durable store that holds one consultation of patient \<^verbatim>\<open>V-100\<close> for 2024-01-03 and is
  not reachable.
\<close>

definition bd_caida :: supabase where
  "bd_caida = \<lparr> tabla_solicitudes = [registro 1 (datos_de paciente_a ''2024-01-03'' (Some ''C-001'')) ''t''],
       tabla_configuracion = [(''cupos_consulta'', ''15''), (''cupos_consulta_miercoles'', ''10''),
                              (''cupos_reembolso'', ''20'')],
       siguiente_id = 2, en_linea = False \<rparr>"

text \<open>Requests of patient \<^verbatim>\<open>V-100\<close> for the same Wednesday, one of each other type.\<close>

definition urgencia :: peticion where
  "urgencia = \<lparr> requestType = ''emergencia'', date = miercoles, patientId = ''V-100'',
       patientGivenName = ''Ana'', patientFamilyName = ''Perez'', hora = ''09:00'' \<rparr>"



text \<open>A store with requests on the last day of January, the first and last of February and the first of March 2024.\<close>

definition historial :: mock where
  "historial = \<lparr> solicitudes =
       [registro 1 (datos_de paciente_a ''2024-01-31'' (Some ''C-001'')) ''t1'',
        registro 2 (datos_de paciente_a ''2024-02-01'' (Some ''C-001'')) ''t2'',
        registro 3 (datos_de paciente_b ''2024-02-29'' (Some ''C-001'')) ''t3'',
        registro 4 (datos_de paciente_b ''2024-03-01'' (Some ''C-001'')) ''t4''],
     idCounter = 5 \<rparr>"


text \<open>
  2024-01-03T02:00:00Z: a Wednesday on the UTC calendar, still the evening of Tuesday
  2024-01-02 in Caracas; and a new patient asking for a consultation at that instant.
\<close>

definition madrugada :: js_date where
  "madrugada = Fecha 1704247200000"

definition paciente_c :: peticion where
  "paciente_c = \<lparr> requestType = ''consulta'', date = madrugada, patientId = ''V-300'',
       patientGivenName = ''Eva'', patientFamilyName = ''Mora'', hora = ''22:00'' \<rparr>"





section \<open>Properties of the store layer\<close>

subsection \<open>Ticket numbers\<close>

lemma cuenta_append: "cuenta (xs @ ys) tipos d = cuenta xs tipos d + cuenta ys tipos d"
  by (simp add: cuenta_def)

lemma getSiguienteNumeroTurno_eq:
  "toISOString_fecha fecha = Some d \<Longrightarrow>
   getSiguienteNumeroTurno st prefijo fecha
     = Some (turno_texto prefijo (cuenta (solicitudes st) (tipoSolicitudQuery_de prefijo) d + 1))"
  by (simp add: getSiguienteNumeroTurno_def turno_texto_def cuenta_def conj_commute)


lemma insertar_eq:
  "insertar ahora st d =
     (Inr (registro (idCounter st) d ahora),
      \<lparr> solicitudes = solicitudes st @ [registro (idCounter st) d ahora],
        idCounter = idCounter st + 1 \<rparr>)"
  by (simp add: insertar_def crearSolicitud_def Let_def)






subsection \<open>Remaining capacity\<close>

lemma getCuposDisponibles_eq:
  "toISOString_fecha fecha = Some d \<Longrightarrow>
   getCuposDisponibles tza st tipo fecha
     = limite_o_15 (configuracion (claveLimite_de tipo (getDay tza fecha)))
       - int (cuenta (solicitudes st) (tipoQuery_de tipo) d)"
  by (simp add: getCuposDisponibles_def cuenta_def)

lemma limite_miercoles:
  "limite_o_15 (configuracion (claveLimite_de ''consulta'' (Some 3))) = 10"
  by (simp add: claveLimite_de_def configuracion_def limite_o_15_def)

lemma limite_normal:
  "w \<noteq> Some 3 \<Longrightarrow> limite_o_15 (configuracion (claveLimite_de ''consulta'' w)) = 15"
  by (simp add: claveLimite_de_def configuracion_def limite_o_15_def)

lemma getCuposDisponibles_supabase_eq:
  assumes "toISOString_fecha fecha = Some d"
    and "consulta_configuracion bd (claveLimite_de tipo (getDay tza fecha)) = Exito v"
  shows "getCuposDisponibles_supabase tza bd tipo fecha
     = map_option (\<lambda>l. l - int (cuenta (tabla_solicitudes bd) (tipoQuery_de tipo) d)) (parseInt v)"
proof -
  from assms(2) have "en_linea bd"
    by (auto simp: consulta_configuracion_def split: if_splits)
  with assms show ?thesis
    by (simp add: getCuposDisponibles_supabase_def cuenta_solicitudes_def cuenta_def)
qed

lemma find_existe: "(find P xs \<noteq> None) = (\<exists>x\<in>set xs. P x)"
  by (induction xs) auto

lemma checkExistingAppointment_eq:
  "toISOString_fecha fecha = Some d \<Longrightarrow>
   checkExistingAppointment st ced fecha
     \<longleftrightarrow> (\<exists>s\<in>set (solicitudes st). cedula s = ced \<and> fecha_solicitud s = d
            \<and> (tipo_solicitud s = ''consulta'' \<or> tipo_solicitud s = ''ecor''))"
  by (simp add: checkExistingAppointment_def find_existe del: not_None_eq)

lemma bookSlot_lleno:
  assumes "toISOString_fecha (date p) = Some d"
    and "familia_consulta (requestType p)"
    and "\<not> checkExistingAppointment st (patientId p) (date p)"
    and "getCuposDisponibles tza st ''consulta'' (date p) \<le> 0"
  shows "bookSlot tza ahora st p = (Inl CapacityExceededError, st)"
  using assms by (auto simp: bookSlot_def familia_consulta_def)

lemma bookSlot_con_cupo:
  assumes "toISOString_fecha (date p) = Some d"
    and "familia_consulta (requestType p)"
    and "\<not> checkExistingAppointment st (patientId p) (date p)"
    and "getCuposDisponibles tza st ''consulta'' (date p) > 0"
  shows "\<not> isl (fst (bookSlot tza ahora st p))"
  using assms
  by (auto simp: bookSlot_def familia_consulta_def insertar_eq getSiguienteNumeroTurno_def)

text \<open>
  What the code computes when the weekday it tests, \<^verbatim>\<open>fecha.getDay()\<close> of the local clock,
  is Wednesday: the limit is 10 instead of 15, the result is 10 minus the number of
  consultations and annual exams on the date of \<^verbatim>\<open>toISOString\<close>, and with 9 of them
  the next booking is accepted, with 10 it is refused.
\<close>

lemma cupos_dia_local:
  assumes "getDay tza fecha = Some 3" and "toISOString_fecha fecha = Some d"
  shows "limite_o_15 (configuracion (claveLimite_de ''consulta'' (getDay tza fecha))) = 10
       \<and> (\<forall>w. w \<noteq> Some 3 \<longrightarrow> limite_o_15 (configuracion (claveLimite_de ''consulta'' w)) = 15)
       \<and> getCuposDisponibles tza st ''consulta'' fecha
           = 10 - int (cuenta (solicitudes st) [''consulta'', ''ecor''] d)
       \<and> (cuenta (solicitudes st) [''consulta'', ''ecor''] d = 9
            \<longrightarrow> getCuposDisponibles tza st ''consulta'' fecha > 0)
       \<and> (cuenta (solicitudes st) [''consulta'', ''ecor''] d = 10
            \<longrightarrow> getCuposDisponibles tza st ''consulta'' fecha \<le> 0)
       \<and> (\<forall>v. consulta_configuracion bd ''cupos_consulta_miercoles'' = Exito v
            \<longrightarrow> getCuposDisponibles_supabase tza bd ''consulta'' fecha
                = map_option (\<lambda>l. l - int (cuenta (tabla_solicitudes bd) [''consulta'', ''ecor''] d))
                             (parseInt v))
       \<and> (\<forall>p ahora. date p = fecha \<and> familia_consulta (requestType p)
              \<and> \<not> checkExistingAppointment st (patientId p) fecha
            \<longrightarrow> (cuenta (solicitudes st) [''consulta'', ''ecor''] d = 9
                   \<longrightarrow> \<not> isl (fst (bookSlot tza ahora st p)))
              \<and> (cuenta (solicitudes st) [''consulta'', ''ecor''] d = 10
                   \<longrightarrow> bookSlot tza ahora st p = (Inl CapacityExceededError, st)))"
proof -
  have l: "limite_o_15 (configuracion (claveLimite_de ''consulta'' (getDay tza fecha))) = 10"
    using assms(1) limite_miercoles by simp
  have g: "getCuposDisponibles tza st ''consulta'' fecha
           = 10 - int (cuenta (solicitudes st) [''consulta'', ''ecor''] d)"
    using getCuposDisponibles_eq [OF assms(2), of tza st "''consulta''"] l
    by (simp add: tipoQuery_de_def)
  have s: "getCuposDisponibles_supabase tza bd ''consulta'' fecha
                = map_option (\<lambda>l. l - int (cuenta (tabla_solicitudes bd) [''consulta'', ''ecor''] d))
                             (parseInt v)"
    if "consulta_configuracion bd ''cupos_consulta_miercoles'' = Exito v" for v
    using getCuposDisponibles_supabase_eq [OF assms(2), of bd "''consulta''" tza v] that assms(1)
    by (simp add: claveLimite_de_def tipoQuery_de_def)
  have b9: "\<not> isl (fst (bookSlot tza ahora st p))"
    if "date p = fecha" "familia_consulta (requestType p)"
       "\<not> checkExistingAppointment st (patientId p) fecha"
       "cuenta (solicitudes st) [''consulta'', ''ecor''] d = 9" for p ahora
    using bookSlot_con_cupo [of p d st tza ahora] that assms(2) g by simp
  have b10: "bookSlot tza ahora st p = (Inl CapacityExceededError, st)"
    if "date p = fecha" "familia_consulta (requestType p)"
       "\<not> checkExistingAppointment st (patientId p) fecha"
       "cuenta (solicitudes st) [''consulta'', ''ecor''] d = 10" for p ahora
    using bookSlot_lleno [of p d st tza ahora] that assms(2) g by simp
  from l limite_normal g s b9 b10 show ?thesis by simp
qed

text \<open>
  Claim C2. On every date that falls on a Wednesday the limit of the consultation family
  is the Wednesday constant 10, \<open>getCuposDisponibles\<close> returns 10 minus the number of
  consultations and annual exams on that date, and with 10 of them the eleventh booking
  is refused. The code tests the weekday of the local clock and counts the UTC date. With
  local time four hours behind UTC, at 2024-01-03T02:00:00Z the counted date is
  2024-01-03, a Wednesday that holds 10 consultations; the weekday tested is Tuesday, the
  limit taken is 15, the function returns 5 and the eleventh booking of that Wednesday
  is accepted.
\<close>

theorem cupos_miercoles_hora_local:
  "toISOString_fecha madrugada = Some ''2024-01-03''
   \<and> WeekDay 1704247200000 = 3
   \<and> getDay (- 14400000) madrugada = Some 2
   \<and> cuenta (solicitudes (lleno 10)) [''consulta'', ''ecor''] ''2024-01-03'' = 10
   \<and> getCuposDisponibles (- 14400000) (lleno 10) ''consulta'' madrugada = 5
   \<and> \<not> checkExistingAppointment (lleno 10) (patientId paciente_c) madrugada
   \<and> \<not> isl (fst (bookSlot (- 14400000) ''t'' (lleno 10) paciente_c))
   \<and> cuenta (solicitudes (snd (bookSlot (- 14400000) ''t'' (lleno 10) paciente_c)))
         [''consulta'', ''ecor''] ''2024-01-03'' = 11"
  by code_simp

lemma getCuposDisponibles_supabase_falla:
  "consulta_configuracion bd (claveLimite_de tipo (getDay tza fecha)) = Falla e \<Longrightarrow>
   getCuposDisponibles_supabase tza bd tipo fecha = Some 0"
  by (simp add: getCuposDisponibles_supabase_def)

lemma consulta_configuracion_ausente:
  "clave \<notin> fst ` set (tabla_configuracion bd) \<Longrightarrow> \<exists>e. consulta_configuracion bd clave = Falla e"
proof -
  assume "clave \<notin> fst ` set (tabla_configuracion bd)"
  then have "filter (\<lambda>r. fst r = clave) (tabla_configuracion bd) = []"
    by (auto simp: filter_empty_conv)
  then show ?thesis by (simp add: consulta_configuracion_def)
qed

text \<open>
  Claim C3, as stated: whenever the configuration entry of the limit is missing, the
  capacity function returns zero remaining capacity and never substitutes a permissive
  limit. The in-memory store does substitute one: the key \<^verbatim>\<open>cupos_ecor\<close> is not in its
  table, \<^verbatim>\<open>configuracion[claveLimite] || 15\<close> takes 15, and on an empty store the
  function returns 15.
\<close>

theorem cupos_sin_configuracion_counterexample:
  "configuracion (claveLimite_de ''ecor'' (getDay 0 miercoles)) = None
   \<and> getCuposDisponibles 0 estado_inicial ''ecor'' miercoles = 15"
  by code_simp

text \<open>
  Claim C3, amended. In the durable store a failed configuration query, and so a missing
  configuration row, makes \<open>getCuposDisponibles\<close> return 0. In the in-memory store a
  key that is missing from the table is replaced by the limit 15, and the function
  returns 15 minus the count of the date.
\<close>

theorem cupos_sin_configuracion:
  "(consulta_configuracion bd (claveLimite_de tipo (getDay tza fecha)) = Falla e
      \<longrightarrow> getCuposDisponibles_supabase tza bd tipo fecha = Some 0)
   \<and> (claveLimite_de tipo (getDay tza fecha) \<notin> fst ` set (tabla_configuracion bd)
      \<longrightarrow> getCuposDisponibles_supabase tza bd tipo fecha = Some 0)
   \<and> (configuracion (claveLimite_de tipo (getDay tza fecha)) = None
        \<and> toISOString_fecha fecha = Some d
      \<longrightarrow> getCuposDisponibles tza st tipo fecha
            = 15 - int (cuenta (solicitudes st) (tipoQuery_de tipo) d))"
proof -
  have a: "getCuposDisponibles_supabase tza bd tipo fecha = Some 0"
    if "claveLimite_de tipo (getDay tza fecha) \<notin> fst ` set (tabla_configuracion bd)"
    using consulta_configuracion_ausente [OF that] getCuposDisponibles_supabase_falla by blast
  have b: "getCuposDisponibles tza st tipo fecha
            = 15 - int (cuenta (solicitudes st) (tipoQuery_de tipo) d)"
    if "configuracion (claveLimite_de tipo (getDay tza fecha)) = None"
       "toISOString_fecha fecha = Some d"
    using getCuposDisponibles_eq [OF that(2), of tza st tipo] that(1)
    by (simp add: limite_o_15_def)
  from a b getCuposDisponibles_supabase_falla show ?thesis by blast
qed

theorem cupos_sin_configuracion_witness:
  "consulta_configuracion bd_caida (claveLimite_de ''consulta'' (getDay 0 miercoles)) = Falla sin_conexion
   \<and> getCuposDisponibles_supabase 0 bd_caida ''consulta'' miercoles = Some 0
   \<and> claveLimite_de ''ecor'' (getDay 0 miercoles) \<notin> fst ` set (tabla_configuracion bd_vacia)
   \<and> getCuposDisponibles_supabase 0 bd_vacia ''ecor'' miercoles = Some 0
   \<and> configuracion (claveLimite_de ''ecor'' (getDay 0 miercoles)) = None
   \<and> toISOString_fecha miercoles = Some ''2024-01-03''
   \<and> getCuposDisponibles 0 estado_inicial ''ecor'' miercoles = 15"
proof -
  have f: "consulta_configuracion bd_caida (claveLimite_de ''consulta'' (getDay 0 miercoles)) = Falla sin_conexion"
    by (simp add: consulta_configuracion_def bd_caida_def)
  have k: "claveLimite_de ''ecor'' (getDay 0 miercoles) = ''cupos_ecor''"
    by (simp add: claveLimite_de_def)
  have m: "claveLimite_de ''ecor'' (getDay 0 miercoles) \<notin> fst ` set (tabla_configuracion bd_vacia)"
    by (simp add: k bd_vacia_def)
  have n: "configuracion (claveLimite_de ''ecor'' (getDay 0 miercoles)) = None"
    by (simp add: k configuracion_def)
  have h: "toISOString_fecha miercoles = Some ''2024-01-03''" by code_simp
  have c: "cuenta (solicitudes estado_inicial) ts ''2024-01-03'' = 0" for ts
    by (simp add: estado_inicial_def cuenta_def)
  note A = cupos_sin_configuracion [of bd_caida "''consulta''" 0 miercoles sin_conexion]
  note B = cupos_sin_configuracion [of bd_vacia "''ecor''" 0 miercoles _ "''2024-01-03''" estado_inicial]
  from A f have g1: "getCuposDisponibles_supabase 0 bd_caida ''consulta'' miercoles = Some 0" by blast
  from B m have g2: "getCuposDisponibles_supabase 0 bd_vacia ''ecor'' miercoles = Some 0" by blast
  from B n h have "getCuposDisponibles 0 estado_inicial ''ecor'' miercoles
      = 15 - int (cuenta (solicitudes estado_inicial) (tipoQuery_de ''ecor'') ''2024-01-03'')" by blast
  then have g3: "getCuposDisponibles 0 estado_inicial ''ecor'' miercoles = 15" by (simp add: c)
  from f g1 m g2 n h g3 show ?thesis by simp
qed

subsection \<open>Store faults\<close>

lemma fuera_de_linea:
  "\<not> en_linea bd \<Longrightarrow> consulta_configuracion bd k = Falla sin_conexion
     \<and> busca_cita bd c f ts = Falla sin_conexion"
  by (simp add: consulta_configuracion_def busca_cita_def)

text \<open>
  Claim C10. When the query inside \<open>checkExistingAppointment\<close> fails, the function
  returns \<^verbatim>\<open>false\<close>: no appointment found, the error is not propagated, and the duplicate
  guard lets the booking through. The capacity check returns 0 on the same fault. In the
  in-memory store the only fault is an invalid date, with the same two results.
\<close>

theorem cita_existente_falla_abierta:
  "(toISOString_fecha fecha = Some d \<and> busca_cita bd ced d [''consulta'', ''ecor''] = Falla e
      \<longrightarrow> checkExistingAppointment_supabase bd ced fecha = False)
   \<and> (\<not> en_linea bd
      \<longrightarrow> checkExistingAppointment_supabase bd ced fecha = False
          \<and> getCuposDisponibles_supabase tza bd tipo fecha = Some 0)
   \<and> checkExistingAppointment st ced FechaInvalida = False
   \<and> getCuposDisponibles tza st tipo FechaInvalida = 0"
proof -
  have a: "checkExistingAppointment_supabase bd ced fecha = False"
    if "toISOString_fecha fecha = Some d" "busca_cita bd ced d [''consulta'', ''ecor''] = Falla e"
    using that by (simp add: checkExistingAppointment_supabase_def)
  have b: "checkExistingAppointment_supabase bd ced fecha = False" if "\<not> en_linea bd"
    using fuera_de_linea [OF that]
    by (simp add: checkExistingAppointment_supabase_def split: option.splits)
  have c: "getCuposDisponibles_supabase tza bd tipo fecha = Some 0" if "\<not> en_linea bd"
    using fuera_de_linea [OF that] by (simp add: getCuposDisponibles_supabase_def)
  have d: "checkExistingAppointment st ced FechaInvalida = False"
    by (simp add: checkExistingAppointment_def toISOString_fecha_def)
  have e: "getCuposDisponibles tza st tipo FechaInvalida = 0"
    by (simp add: getCuposDisponibles_def toISOString_fecha_def)
  from a b c d e show ?thesis by blast
qed

theorem cita_existente_falla_abierta_witness:
  "toISOString_fecha miercoles = Some ''2024-01-03''
   \<and> busca_cita bd_caida ''V-100'' ''2024-01-03'' [''consulta'', ''ecor''] = Falla sin_conexion
   \<and> list_ex (\<lambda>s. cedula s = ''V-100'' \<and> fecha_solicitud s = ''2024-01-03''
                  \<and> tipo_solicitud s = ''consulta'') (tabla_solicitudes bd_caida)
   \<and> \<not> en_linea bd_caida
   \<and> checkExistingAppointment_supabase bd_caida ''V-100'' miercoles = False
   \<and> getCuposDisponibles_supabase 0 bd_caida ''consulta'' miercoles = Some 0"
proof -
  have h: "toISOString_fecha miercoles = Some ''2024-01-03''" by code_simp
  have o: "\<not> en_linea bd_caida" by (simp add: bd_caida_def)
  have q: "busca_cita bd_caida ''V-100'' ''2024-01-03'' [''consulta'', ''ecor''] = Falla sin_conexion"
    using fuera_de_linea [OF o] by simp
  have x: "list_ex (\<lambda>s. cedula s = ''V-100'' \<and> fecha_solicitud s = ''2024-01-03''
                  \<and> tipo_solicitud s = ''consulta'') (tabla_solicitudes bd_caida)"
    by (simp add: bd_caida_def registro_def datos_de_def paciente_a_def)
  note A = cita_existente_falla_abierta
             [of miercoles "''2024-01-03''" bd_caida "''V-100''" sin_conexion 0 "''consulta''"]
  from A h q have g1: "checkExistingAppointment_supabase bd_caida ''V-100'' miercoles = False"
    by blast
  from A o have g2: "getCuposDisponibles_supabase 0 bd_caida ''consulta'' miercoles = Some 0"
    by blast
  from h q x o g1 g2 show ?thesis by blast
qed

text \<open>
  Claim C8, as stated: \<open>crearSolicitud\<close> either returns the persisted record or fails
  with the store's error, surfaced unchanged. On a store that is not reachable the
  durable \<open>crearSolicitud\<close> returns \<^verbatim>\<open>null\<close> instead: the error is caught and logged.
\<close>

theorem crear_solicitud_error_counterexample:
  "crearSolicitud_supabase ''t'' bd_caida (datos_de paciente_b ''2024-01-03'' (Some ''C-002''))
     = (None, bd_caida)"
  by (simp add: crearSolicitud_supabase_def inserta_solicitud_def bd_caida_def)

text \<open>
  Claim C8, amended. \<open>crearSolicitud\<close> has two outcomes, both ordinary return values:
  when the insert fails it returns \<^verbatim>\<open>null\<close> and the table is unchanged; when it succeeds
  it returns the persisted record, which carries the \<^verbatim>\<open>id\<close> the store assigned and is the
  new last row. The in-memory \<open>crearSolicitud\<close> always returns the record, with
  \<^verbatim>\<open>idCounter\<close> as its \<^verbatim>\<open>id\<close>.
\<close>

theorem crear_solicitud_resultado:
  "(fst (inserta_solicitud ahora bd datos) = Falla e
      \<longrightarrow> crearSolicitud_supabase ahora bd datos = (None, bd))
   \<and> (fst (inserta_solicitud ahora bd datos) = Exito r
      \<longrightarrow> crearSolicitud_supabase ahora bd datos
            = (Some r, bd \<lparr> tabla_solicitudes := tabla_solicitudes bd @ [r],
                            siguiente_id := siguiente_id bd + 1 \<rparr>)
          \<and> r = registro (siguiente_id bd) datos ahora \<and> id r = siguiente_id bd)
   \<and> crearSolicitud ahora st datos
        = (Some (registro (idCounter st) datos ahora),
           \<lparr> solicitudes = solicitudes st @ [registro (idCounter st) datos ahora],
             idCounter = idCounter st + 1 \<rparr>)
   \<and> id (registro (idCounter st) datos ahora) = idCounter st"
  by (auto simp: crearSolicitud_supabase_def inserta_solicitud_def crearSolicitud_def
                 registro_def Let_def split: if_splits)

theorem crear_solicitud_resultado_witness:
  "fst (inserta_solicitud ''t'' bd_caida (datos_de paciente_b ''2024-01-03'' None)) = Falla sin_conexion
   \<and> crearSolicitud_supabase ''t'' bd_caida (datos_de paciente_b ''2024-01-03'' None) = (None, bd_caida)
   \<and> fst (inserta_solicitud ''t'' bd_vacia (datos_de paciente_b ''2024-01-03'' None))
       = Exito (registro 1 (datos_de paciente_b ''2024-01-03'' None) ''t'')
   \<and> fst (crearSolicitud_supabase ''t'' bd_vacia (datos_de paciente_b ''2024-01-03'' None))
       = Some (registro 1 (datos_de paciente_b ''2024-01-03'' None) ''t'')
   \<and> fst (crearSolicitud ''t'' estado_inicial (datos_de paciente_b ''2024-01-03'' None))
       = Some (registro 1 (datos_de paciente_b ''2024-01-03'' None) ''t'')"
proof -
  let ?d = "datos_de paciente_b ''2024-01-03'' None"
  have f: "fst (inserta_solicitud ''t'' bd_caida ?d) = Falla sin_conexion"
    by (simp add: inserta_solicitud_def bd_caida_def)
  have x: "fst (inserta_solicitud ''t'' bd_vacia ?d) = Exito (registro 1 ?d ''t'')"
    by (simp add: inserta_solicitud_def bd_vacia_def Let_def)
  have i: "idCounter estado_inicial = 1" by (simp add: estado_inicial_def)
  note A = crear_solicitud_resultado [of "''t''" bd_caida ?d sin_conexion _ estado_inicial]
  note B = crear_solicitud_resultado [of "''t''" bd_vacia ?d _ "registro 1 ?d ''t''" estado_inicial]
  from A f have g1: "crearSolicitud_supabase ''t'' bd_caida ?d = (None, bd_caida)" by blast
  from B x have g2: "fst (crearSolicitud_supabase ''t'' bd_vacia ?d) = Some (registro 1 ?d ''t'')"
    by simp
  from B i have g3: "fst (crearSolicitud ''t'' estado_inicial ?d) = Some (registro 1 ?d ''t'')"
    by simp
  from f g1 x g2 g3 show ?thesis by blast
qed

subsection \<open>The duplicate guard\<close>







subsection \<open>Emergencies\<close>

lemma cuenta_sin_emergencias:
  "''emergencia'' \<notin> set ts \<Longrightarrow> cuenta (sin_emergencias xs) ts d = cuenta xs ts d"
proof -
  assume a: "''emergencia'' \<notin> set ts"
  have "filter (\<lambda>s. tipo_solicitud s \<in> set ts \<and> fecha_solicitud s = d) (sin_emergencias xs)
        = filter (\<lambda>s. tipo_solicitud s \<in> set ts \<and> fecha_solicitud s = d) xs"
    unfolding sin_emergencias_def filter_filter
    by (rule filter_cong) (use a in auto)
  then show ?thesis by (simp add: cuenta_def)
qed

lemma tipoQuery_sin_emergencia:
  "''emergencia'' \<notin> set (tipoQuery_de tipo)" "''emergencia'' \<notin> set (tipoSolicitudQuery_de prefijo)"
  by (simp_all add: tipoQuery_de_def tipoSolicitudQuery_de_def)

lemma cuenta_iguales:
  assumes "sin_emergencias xs = sin_emergencias ys" and "''emergencia'' \<notin> set ts"
  shows "cuenta xs ts d = cuenta ys ts d"
  using cuenta_sin_emergencias [OF assms(2), of xs d] cuenta_sin_emergencias [OF assms(2), of ys d]
        assms(1) by simp

lemma existe_sin_emergencias:
  "(\<exists>s\<in>set (sin_emergencias xs). cedula s = c \<and> fecha_solicitud s = d
         \<and> (tipo_solicitud s = ''consulta'' \<or> tipo_solicitud s = ''ecor''))
   = (\<exists>s\<in>set xs. cedula s = c \<and> fecha_solicitud s = d
         \<and> (tipo_solicitud s = ''consulta'' \<or> tipo_solicitud s = ''ecor''))"
  by (auto simp: sin_emergencias_def)

lemma observaciones_iguales:
  assumes "sin_emergencias (solicitudes st1) = sin_emergencias (solicitudes st2)"
  shows "getCuposDisponibles tza st1 tipo fecha = getCuposDisponibles tza st2 tipo fecha"
    and "getSiguienteNumeroTurno st1 prefijo fecha = getSiguienteNumeroTurno st2 prefijo fecha"
    and "checkExistingAppointment st1 ced fecha = checkExistingAppointment st2 ced fecha"
proof -
  show "getCuposDisponibles tza st1 tipo fecha = getCuposDisponibles tza st2 tipo fecha"
  proof (cases "toISOString_fecha fecha")
    case None
    then show ?thesis by (simp add: getCuposDisponibles_def)
  next
    case (Some d)
    show ?thesis
      using cuenta_iguales [OF assms tipoQuery_sin_emergencia(1), of tipo d]
      by (simp add: getCuposDisponibles_eq [OF Some])
  qed
  show "getSiguienteNumeroTurno st1 prefijo fecha = getSiguienteNumeroTurno st2 prefijo fecha"
  proof (cases "toISOString_fecha fecha")
    case None
    then show ?thesis by (simp add: getSiguienteNumeroTurno_def)
  next
    case (Some d)
    show ?thesis
      using cuenta_iguales [OF assms tipoQuery_sin_emergencia(2), of prefijo d]
      by (simp add: getSiguienteNumeroTurno_eq [OF Some])
  qed
  show "checkExistingAppointment st1 ced fecha = checkExistingAppointment st2 ced fecha"
  proof (cases "toISOString_fecha fecha")
    case None
    then show ?thesis by (simp add: checkExistingAppointment_def)
  next
    case (Some d)
    show ?thesis
      using existe_sin_emergencias [of "solicitudes st1" ced d]
            existe_sin_emergencias [of "solicitudes st2" ced d] assms
      by (simp add: checkExistingAppointment_eq [OF Some])
  qed
qed

lemma bookSlot_emergencia:
  assumes "requestType p = ''emergencia''" and "toISOString_fecha (date p) \<noteq> None"
    and "bookSlot tza ahora st p = (r, st')"
  shows "\<not> isl r \<and> tipo_solicitud (projr r) = ''emergencia'' \<and> numero_turno (projr r) = None
       \<and> solicitudes st' = solicitudes st @ [projr r]"
  using assms
  by (auto simp: bookSlot_def insertar_eq registro_def datos_de_def split: option.splits)

lemma bookSlots_emergencias:
  assumes "\<forall>x\<in>set ps. requestType (snd x) = ''emergencia'' \<and> toISOString_fecha (date (snd x)) \<noteq> None"
    and "bookSlots tza st ps = (rs, st')"
  shows "(\<forall>r\<in>set rs. \<not> isl r) \<and> length rs = length ps
       \<and> sin_emergencias (solicitudes st') = sin_emergencias (solicitudes st)"
  using assms
proof (induction ps arbitrary: st rs st')
  case Nil
  then show ?case by simp
next
  case (Cons x ps)
  obtain ahora p where x: "x = (ahora, p)" by (cases x)
  obtain r st1 where b1: "bookSlot tza ahora st p = (r, st1)" by (cases "bookSlot tza ahora st p")
  obtain rs1 st2 where b2: "bookSlots tza st1 ps = (rs1, st2)" by (cases "bookSlots tza st1 ps")
  from Cons.prems(2) x b1 b2 have rs: "rs = r # rs1" and st: "st' = st2" by auto
  from Cons.prems(1) x have e: "requestType p = ''emergencia''"
    and v: "toISOString_fecha (date p) \<noteq> None" by auto
  from bookSlot_emergencia [OF e v b1]
  have r: "\<not> isl r" and s1: "sin_emergencias (solicitudes st1) = sin_emergencias (solicitudes st)"
    by (auto simp: sin_emergencias_def)
  from Cons.IH [OF _ b2] Cons.prems(1)
  have "(\<forall>r\<in>set rs1. \<not> isl r) \<and> length rs1 = length ps
       \<and> sin_emergencias (solicitudes st2) = sin_emergencias (solicitudes st1)" by simp
  with rs st r s1 show ?case by simp
qed

text \<open>
  Claim C5. The remaining capacity, the next ticket number and the duplicate check
  depend on the requests that are not emergencies only: two stores that agree on those
  give the same three results, for every type, prefix, patient and date. So any number
  of emergency bookings, also of one patient on one date, all succeed and leave the
  three results as they were.
\<close>

theorem emergencias_no_cuentan:
  "(sin_emergencias (solicitudes st1) = sin_emergencias (solicitudes st2)
      \<longrightarrow> getCuposDisponibles tza st1 tipo fecha = getCuposDisponibles tza st2 tipo fecha
          \<and> getSiguienteNumeroTurno st1 prefijo fecha = getSiguienteNumeroTurno st2 prefijo fecha
          \<and> checkExistingAppointment st1 ced fecha = checkExistingAppointment st2 ced fecha)
   \<and> (\<forall>ps rs st'.
        (\<forall>x\<in>set ps. requestType (snd x) = ''emergencia''
                      \<and> toISOString_fecha (date (snd x)) \<noteq> None)
          \<and> bookSlots tza st ps = (rs, st')
        \<longrightarrow> (\<forall>r\<in>set rs. \<not> isl r) \<and> length rs = length ps
            \<and> getCuposDisponibles tza st' tipo fecha = getCuposDisponibles tza st tipo fecha
            \<and> getSiguienteNumeroTurno st' prefijo fecha = getSiguienteNumeroTurno st prefijo fecha
            \<and> checkExistingAppointment st' ced fecha = checkExistingAppointment st ced fecha)"
proof -
  have a: "getCuposDisponibles tza st1 tipo fecha = getCuposDisponibles tza st2 tipo fecha
          \<and> getSiguienteNumeroTurno st1 prefijo fecha = getSiguienteNumeroTurno st2 prefijo fecha
          \<and> checkExistingAppointment st1 ced fecha = checkExistingAppointment st2 ced fecha"
    if "sin_emergencias (solicitudes st1) = sin_emergencias (solicitudes st2)"
    using observaciones_iguales [OF that] by simp
  have b: "(\<forall>r\<in>set rs. \<not> isl r) \<and> length rs = length ps
            \<and> getCuposDisponibles tza st' tipo fecha = getCuposDisponibles tza st tipo fecha
            \<and> getSiguienteNumeroTurno st' prefijo fecha = getSiguienteNumeroTurno st prefijo fecha
            \<and> checkExistingAppointment st' ced fecha = checkExistingAppointment st ced fecha"
    if "\<forall>x\<in>set ps. requestType (snd x) = ''emergencia''
                      \<and> toISOString_fecha (date (snd x)) \<noteq> None"
      and "bookSlots tza st ps = (rs, st')" for ps rs st'
  proof -
    from bookSlots_emergencias [OF that]
    have ok: "(\<forall>r\<in>set rs. \<not> isl r) \<and> length rs = length ps"
      and s: "sin_emergencias (solicitudes st') = sin_emergencias (solicitudes st)" by simp_all
    from ok observaciones_iguales [OF s] show ?thesis by simp
  qed
  from a b show ?thesis by blast
qed

theorem emergencias_no_cuentan_witness:
  "sin_emergencias (solicitudes (snd (bookSlot 0 ''t'' (lleno 9) urgencia)))
     = sin_emergencias (solicitudes (lleno 9))
   \<and> getCuposDisponibles 0 (snd (bookSlot 0 ''t'' (lleno 9) urgencia)) ''consulta'' miercoles
       = getCuposDisponibles 0 (lleno 9) ''consulta'' miercoles
   \<and> list_all (\<lambda>r. \<not> isl r)
        (fst (bookSlots 0 (lleno 9) [(''t1'', urgencia), (''t2'', urgencia), (''t3'', urgencia)]))
   \<and> getCuposDisponibles 0
        (snd (bookSlots 0 (lleno 9) [(''t1'', urgencia), (''t2'', urgencia), (''t3'', urgencia)]))
        ''consulta'' miercoles
       = getCuposDisponibles 0 (lleno 9) ''consulta'' miercoles
   \<and> getSiguienteNumeroTurno
        (snd (bookSlots 0 (lleno 9) [(''t1'', urgencia), (''t2'', urgencia), (''t3'', urgencia)]))
        ''C'' miercoles
       = getSiguienteNumeroTurno (lleno 9) ''C'' miercoles
   \<and> checkExistingAppointment
        (snd (bookSlots 0 (lleno 9) [(''t1'', urgencia), (''t2'', urgencia), (''t3'', urgencia)]))
        ''V-300'' miercoles
       = checkExistingAppointment (lleno 9) ''V-300'' miercoles"
proof -
  let ?ps = "[(''t1'', urgencia), (''t2'', urgencia), (''t3'', urgencia)]"
  let ?X = "bookSlots 0 (lleno 9) ?ps"
  have h: "toISOString_fecha miercoles = Some ''2024-01-03''" by code_simp
  have e: "\<forall>x\<in>set ?ps. requestType (snd x) = ''emergencia''
                      \<and> toISOString_fecha (date (snd x)) \<noteq> None"
    by (simp add: urgencia_def h)
  have x: "?X = (fst ?X, snd ?X)" by simp
  have s: "sin_emergencias (solicitudes (snd (bookSlot 0 ''t'' (lleno 9) urgencia)))
     = sin_emergencias (solicitudes (lleno 9))"
    using bookSlots_emergencias [of "[(''t'', urgencia)]" 0 "lleno 9"
            "fst (bookSlots 0 (lleno 9) [(''t'', urgencia)])"
            "snd (bookSlots 0 (lleno 9) [(''t'', urgencia)])"]
    by (simp add: urgencia_def h split: prod.splits)
  note A = emergencias_no_cuentan
             [of "snd (bookSlot 0 ''t'' (lleno 9) urgencia)" "lleno 9" 0 "''consulta''" miercoles
                 "''C''" "''V-300''" "lleno 9"]
  from A s have g1: "getCuposDisponibles 0 (snd (bookSlot 0 ''t'' (lleno 9) urgencia)) ''consulta'' miercoles
       = getCuposDisponibles 0 (lleno 9) ''consulta'' miercoles" by blast
  from A e x have g2: "list_all (\<lambda>r. \<not> isl r) (fst ?X)
     \<and> getCuposDisponibles 0 (snd ?X) ''consulta'' miercoles
         = getCuposDisponibles 0 (lleno 9) ''consulta'' miercoles
     \<and> getSiguienteNumeroTurno (snd ?X) ''C'' miercoles = getSiguienteNumeroTurno (lleno 9) ''C'' miercoles
     \<and> checkExistingAppointment (snd ?X) ''V-300'' miercoles
         = checkExistingAppointment (lleno 9) ''V-300'' miercoles"
    unfolding list_all_iff by blast
  from s g1 g2 show ?thesis by blast
qed

subsection \<open>The calendar\<close>

text \<open>
  \<open>DayFromYear\<close> stays within two days of the mean year length, so the estimate of
  \<open>YearFromDay\<close> is off by at most one and the year it returns is the one whose days
  contain the day number.
\<close>

lemma div_cotas:
  fixes x :: int
  assumes "0 < n"
  shows "n * (x div n) \<le> x" "x \<le> n * (x div n) + (n - 1)"
proof -
  have e: "x = n * (x div n) + x mod n" by simp
  have "0 \<le> x mod n" "x mod n < n" using assms by simp_all
  with e show "n * (x div n) \<le> x" "x \<le> n * (x div n) + (n - 1)" by linarith+
qed

lemma DayFromYear_cotas:
  "146097 * y \<le> 400 * DayFromYear y + 287811596"
  "400 * DayFromYear y \<le> 146097 * y - 287810501"
proof -
  define a where "a = (y - 1969) div 4"
  define b where "b = (y - 1901) div 100"
  define c where "c = (y - 1601) div 400"
  have a: "4 * a \<le> y - 1969" "y - 1969 \<le> 4 * a + 3"
    unfolding a_def using div_cotas [of 4 "y - 1969"] by simp_all
  have b: "100 * b \<le> y - 1901" "y - 1901 \<le> 100 * b + 99"
    unfolding b_def using div_cotas [of 100 "y - 1901"] by simp_all
  have c: "400 * c \<le> y - 1601" "y - 1601 \<le> 400 * c + 399"
    unfolding c_def using div_cotas [of 400 "y - 1601"] by simp_all
  have d: "400 * DayFromYear y = 146000 * y - 287620000 + 400 * a - 400 * b + 400 * c"
    by (simp add: DayFromYear_def a_def b_def c_def)
  show "146097 * y \<le> 400 * DayFromYear y + 287811596"
    unfolding d using a b c by linarith
  show "400 * DayFromYear y \<le> 146097 * y - 287810501"
    unfolding d using a b c by linarith
qed

lemma DayFromYear_mono: "y < y' \<Longrightarrow> DayFromYear y < DayFromYear y'"
  using DayFromYear_cotas [of y] DayFromYear_cotas [of y'] by linarith

lemma YearFromDay_cotas:
  "DayFromYear (YearFromDay d) \<le> d" "d < DayFromYear (YearFromDay d + 1)"
proof -
  define k where "k = (400 * d) div 146097"
  have k: "146097 * k \<le> 400 * d" "400 * d \<le> 146097 * k + 146096"
    unfolding k_def using div_cotas [of 146097 "400 * d"] by simp_all
  have "400 * DayFromYear (1969 + k) \<le> 146097 * k - 145508"
    using DayFromYear_cotas(2) [of "1969 + k"] by simp
  with k have lo: "DayFromYear (1969 + k) \<le> d" by linarith
  have "146097 * k + 291688 \<le> 400 * DayFromYear (1972 + k)"
    using DayFromYear_cotas(1) [of "1972 + k"] by simp
  with k have hi: "d < DayFromYear (1972 + k)" by linarith
  show "DayFromYear (YearFromDay d) \<le> d"
    using lo by (simp add: YearFromDay_def k_def [symmetric] Let_def)
  show "d < DayFromYear (YearFromDay d + 1)"
    using hi by (auto simp: YearFromDay_def k_def [symmetric] Let_def add.commute add.left_commute)
qed

lemma YearFromDay_unico:
  assumes "DayFromYear y \<le> d" and "d < DayFromYear (y + 1)"
  shows "YearFromDay d = y"
proof (rule ccontr)
  assume n: "YearFromDay d \<noteq> y"
  show False
  proof (cases "YearFromDay d < y")
    case True
    then have "YearFromDay d + 1 \<le> y" by simp
    then have "DayFromYear (YearFromDay d + 1) \<le> DayFromYear y"
      using DayFromYear_mono [of "YearFromDay d + 1" y] by (cases "YearFromDay d + 1 = y") auto
    with YearFromDay_cotas(2) [of d] assms(1) show False by simp
  next
    case False
    with n have "y + 1 \<le> YearFromDay d" by simp
    then have "DayFromYear (y + 1) \<le> DayFromYear (YearFromDay d)"
      using DayFromYear_mono [of "y + 1" "YearFromDay d"] by (cases "y + 1 = YearFromDay d") auto
    with YearFromDay_cotas(1) [of d] assms(2) show False by simp
  qed
qed

lemma div_siguiente:
  fixes x :: int
  assumes "0 < n"
  shows "(x + 1) div n = x div n + (if (x + 1) mod n = 0 then 1 else 0)"
proof -
  define q where "q = x div n"
  define r where "r = x mod n"
  have x: "x = n * q + r" and r: "0 \<le> r" "r < n"
    using assms by (simp_all add: q_def r_def)
  show ?thesis
  proof (cases "r + 1 = n")
    case True
    then have "x + 1 = n * (q + 1)" using x by (simp add: algebra_simps)
    then have "(x + 1) div n = q + 1" "(x + 1) mod n = 0" using assms by simp_all
    then show ?thesis by (simp add: q_def)
  next
    case False
    with r have r1: "0 \<le> r + 1" "r + 1 < n" by simp_all
    have e: "x + 1 = n * q + (r + 1)" using x by simp
    have d: "(x + 1) div n = q" using int_div_pos_eq [OF e r1] .
    have m: "(x + 1) mod n = r + 1" using int_mod_pos_eq [OF e r1] .
    from d m r show ?thesis by (simp add: q_def)
  qed
qed

lemma mod_desplazado:
  fixes y :: int
  shows "(y - 1968) mod 4 = y mod 4" "(y - 1900) mod 100 = y mod 100"
    "(y - 1600) mod 400 = y mod 400"
proof -
  have "(y - 1968) mod 4 = (y - 1968 mod 4) mod 4" by (simp only: mod_diff_right_eq)
  then show "(y - 1968) mod 4 = y mod 4" by simp
  have "(y - 1900) mod 100 = (y - 1900 mod 100) mod 100" by (simp only: mod_diff_right_eq)
  then show "(y - 1900) mod 100 = y mod 100" by simp
  have "(y - 1600) mod 400 = (y - 1600 mod 400) mod 400" by (simp only: mod_diff_right_eq)
  then show "(y - 1600) mod 400 = y mod 400" by simp
qed

lemma DayFromYear_siguiente: "DayFromYear (y + 1) = DayFromYear y + DaysInYear y"
proof -
  have a: "(y - 1968) div 4 = (y - 1969) div 4 + (if y mod 4 = 0 then 1 else 0)"
    using div_siguiente [of 4 "y - 1969"] by (simp add: mod_desplazado)
  have b: "(y - 1900) div 100 = (y - 1901) div 100 + (if y mod 100 = 0 then 1 else 0)"
    using div_siguiente [of 100 "y - 1901"] by (simp add: mod_desplazado)
  have c: "(y - 1600) div 400 = (y - 1601) div 400 + (if y mod 400 = 0 then 1 else 0)"
    using div_siguiente [of 400 "y - 1601"] by (simp add: mod_desplazado)
  have m1: "y mod 4 = 0" if "y mod 100 = 0"
    using that mod_mod_cancel [of 4 100 y] by simp
  have m2: "y mod 100 = 0" if "y mod 400 = 0"
    using that mod_mod_cancel [of 100 400 y] by simp
  have "DayFromYear (y + 1)
        = 365 * (y - 1969) + (y - 1968) div 4 - (y - 1900) div 100 + (y - 1600) div 400"
    by (simp add: DayFromYear_def)
  also have "\<dots> = DayFromYear y + DaysInYear y"
    unfolding a b c DayFromYear_def DaysInYear_def
    using m1 m2 by auto
  finally show ?thesis .
qed

lemma DaysInYear_valores: "DaysInYear y = 365 \<or> DaysInYear y = 366"
  by (simp add: DaysInYear_def)

lemma Day_por_dia: "Day (n * msPerDay) = n" "TimeWithinDay (n * msPerDay) = 0"
  by (simp_all add: Day_def TimeWithinDay_def msPerDay_def)

lemma Day_MakeDate:
  assumes "0 \<le> w" "w < msPerDay"
  shows "Day (MakeDate n w) = n"
proof -
  have e: "MakeDate n w = msPerDay * n + w" by (simp add: MakeDate_def)
  have p: "0 \<le> w" "w < msPerDay" using assms by simp_all
  show ?thesis unfolding Day_def using int_div_pos_eq [OF e p] .
qed

lemma TimeWithinDay_cotas: "0 \<le> TimeWithinDay t" "TimeWithinDay t < msPerDay"
  by (simp_all add: TimeWithinDay_def msPerDay_def)

lemma MonthFromTime_cotas: "0 \<le> MonthFromTime t" "MonthFromTime t \<le> 11"
  by (simp_all add: MonthFromTime_def Let_def)

lemma MakeDay_de_campos:
  "MakeDay (YearFromTime t) (MonthFromTime t) dt = Day t + (dt - DateFromTime t)"
proof -
  have m: "MonthFromTime t div 12 = 0" "MonthFromTime t mod 12 = MonthFromTime t"
    using MonthFromTime_cotas [of t] by simp_all
  show ?thesis
    by (simp add: MakeDay_def m DateFromTime_def DayWithinYear_def InLeapYear_def)
qed

lemma campos_por_dia:
  assumes "Day t = Day t'"
  shows "YearFromTime t = YearFromTime t'" "MonthFromTime t = MonthFromTime t'"
    "DateFromTime t = DateFromTime t'" "WeekDay t = WeekDay t'"
proof -
  show y: "YearFromTime t = YearFromTime t'" using assms by (simp add: YearFromTime_def)
  have l: "InLeapYear t = InLeapYear t'" using y by (simp add: InLeapYear_def)
  have d: "DayWithinYear t = DayWithinYear t'" using y assms by (simp add: DayWithinYear_def)
  show m: "MonthFromTime t = MonthFromTime t'" using l d by (simp add: MonthFromTime_def)
  show "DateFromTime t = DateFromTime t'" using l d m by (simp add: DateFromTime_def)
  show "WeekDay t = WeekDay t'" using assms by (simp add: WeekDay_def)
qed

lemma String_nat_largo:
  "10 \<le> n \<Longrightarrow> length (String_nat n) = Suc (length (String_nat (n div 10)))"
  "0 < length (String_nat n)"
proof -
  show "10 \<le> n \<Longrightarrow> length (String_nat n) = Suc (length (String_nat (n div 10)))"
    by (subst String_nat.simps) simp
  show "0 < length (String_nat n)"
    by (subst String_nat.simps) simp
qed

lemma String_nat_mil: "1000 \<le> n \<Longrightarrow> 4 \<le> length (String_nat n)"
proof -
  assume a: "1000 \<le> n"
  then have 1: "length (String_nat n) = Suc (length (String_nat (n div 10)))"
    by (intro String_nat_largo(1)) simp
  from a have "10 \<le> n div 10" by simp
  then have 2: "length (String_nat (n div 10)) = Suc (length (String_nat (n div 10 div 10)))"
    by (rule String_nat_largo(1))
  from a have "10 \<le> n div 10 div 10" by simp
  then have 3: "length (String_nat (n div 10 div 10))
                = Suc (length (String_nat (n div 10 div 10 div 10)))"
    by (rule String_nat_largo(1))
  from 1 2 3 String_nat_largo(2) [of "n div 10 div 10 div 10"] show ?thesis
    by (cases "String_nat (n div 10 div 10 div 10)") simp_all
qed

lemma anioISO_cuatro: "1000 \<le> y \<Longrightarrow> y \<le> 9999 \<Longrightarrow> anioISO y = String_int y"
  using String_nat_mil [of "nat y"]
  by (simp add: anioISO_def String_int_def padStart_def)

lemma YearFromDay_rango:
  assumes "0 \<le> d" and "d < 2932897"
  shows "1970 \<le> YearFromDay d" "YearFromDay d \<le> 9999"
proof -
  have a: "DayFromYear 1970 = 0" "DayFromYear 10000 = 2932897"
    by (simp_all add: DayFromYear_def)
  show "1970 \<le> YearFromDay d"
  proof (rule ccontr)
    assume "\<not> 1970 \<le> YearFromDay d"
    then have "YearFromDay d + 1 \<le> 1970" by simp
    then have "DayFromYear (YearFromDay d + 1) \<le> DayFromYear 1970"
      using DayFromYear_mono [of "YearFromDay d + 1" 1970]
      by (cases "YearFromDay d + 1 = 1970") auto
    with YearFromDay_cotas(2) [of d] assms(1) a show False by simp
  qed
  show "YearFromDay d \<le> 9999"
  proof (rule ccontr)
    assume "\<not> YearFromDay d \<le> 9999"
    then have "10000 \<le> YearFromDay d" by simp
    then have "DayFromYear 10000 \<le> DayFromYear (YearFromDay d)"
      using DayFromYear_mono [of 10000 "YearFromDay d"]
      by (cases "10000 = YearFromDay d") auto
    with YearFromDay_cotas(1) [of d] assms(2) a show False by simp
  qed
qed

lemma toLocaleDateString_enCA_ISO:
  assumes "0 \<le> Day (LocalTime tza t)" and "Day (LocalTime tza t) < 2932897"
  shows "toLocaleDateString_enCA tza (Fecha t) = fechaISO_de (Day (LocalTime tza t) * msPerDay)"
proof -
  let ?l = "LocalTime tza t"
  let ?m = "Day ?l * msPerDay"
  have d: "Day ?l = Day ?m" by (simp add: Day_por_dia)
  note c = campos_por_dia [OF d]
  have y: "1000 \<le> YearFromTime ?l" "YearFromTime ?l \<le> 9999"
    using YearFromDay_rango [OF assms] by (simp_all add: YearFromTime_def)
  show ?thesis
    using anioISO_cuatro [OF y] c by (simp add: fechaISO_de_def Let_def)
qed

lemma Day_segundos: "Day (x div 1000 * 1000) = Day x"
proof -
  have "x div 1000 * 1000 div 86400000 = x div 1000 div 86400"
    using zdiv_zmult2_eq [of 1000 "x div 1000 * 1000" 86400] by simp
  also have "\<dots> = x div 86400000"
    using zdiv_zmult2_eq [of 1000 x 86400] by simp
  finally show ?thesis by (simp add: Day_def msPerDay_def)
qed

lemma segundos_cotas: "x - 999 \<le> x div 1000 * 1000" "x div 1000 * 1000 \<le> x" for x :: int
  using div_cotas [of 1000 x] by simp_all

lemma MakeDate_campos: "MakeDate (Day w - k) (TimeWithinDay w) = w - k * msPerDay"
proof -
  have "w = Day w * msPerDay + TimeWithinDay w"
    by (simp add: Day_def TimeWithinDay_def)
  then show ?thesis by (simp add: MakeDate_def algebra_simps)
qed

lemma Day_menos: "Day (w - k * msPerDay) = Day w - k"
  using Day_MakeDate [OF TimeWithinDay_cotas, of "Day w - k" w] by (simp add: MakeDate_campos)

lemma tzaCaracas_cotas: "- 16200000 \<le> tzaCaracas t" "tzaCaracas t \<le> - 14400000"
  by (simp_all add: tzaCaracas_def)

lemma ahora_Caracas_valor:
  assumes "\<bar>tza\<bar> \<le> msPerDay" and "4 * msPerDay \<le> t" and "t < 253402300800000"
  shows "ahora_Caracas tza t = Fecha (LocalTime (tzaCaracas t) t div 1000 * 1000 - tza)"
  using assms segundos_cotas [of "LocalTime (tzaCaracas t) t"] tzaCaracas_cotas [of t]
  by (simp add: ahora_Caracas_def TimeClip_def UTC_def LocalTime_def msPerDay_def)

lemma Day_Caracas:
  assumes "4 * msPerDay \<le> t" and "t < 253402300800000"
  shows "3 \<le> Day (LocalTime (tzaCaracas t) t)" "Day (LocalTime (tzaCaracas t) t) < 2932897"
proof -
  let ?x = "LocalTime (tzaCaracas t) t"
  have x: "3 * 86400000 \<le> ?x" "?x < 2932897 * 86400000"
    using assms tzaCaracas_cotas [of t] by (simp_all add: LocalTime_def msPerDay_def)
  have "3 * 86400000 div 86400000 \<le> ?x div 86400000"
    using x(1) by (intro zdiv_mono1) simp_all
  then show "3 \<le> Day ?x" by (simp add: Day_def msPerDay_def)
  have "?x div 86400000 < 2932897"
    using x(2) by (simp add: div_less_iff_less_mult)
  then show "Day ?x < 2932897" by (simp add: Day_def msPerDay_def)
qed

lemma reporte_k:
  assumes "\<bar>tza\<bar> \<le> msPerDay" and "4 * msPerDay \<le> t" and "t < 253402300800000"
    and "k = 1 \<or> k = 3"
  shows "toLocaleDateString_enCA tza
           (setDate tza (ahora_Caracas tza t)
              (map_option (\<lambda>d. d - k) (getDate tza (ahora_Caracas tza t))))
         = fechaISO_de ((Day (LocalTime (tzaCaracas t) t) - k) * msPerDay)"
proof -
  define w where "w = LocalTime (tzaCaracas t) t div 1000 * 1000"
  have a: "ahora_Caracas tza t = Fecha (w - tza)"
    using ahora_Caracas_valor [OF assms(1-3)] by (simp add: w_def)
  have l: "LocalTime tza (w - tza) = w" by (simp add: LocalTime_def)
  have dw: "Day w = Day (LocalTime (tzaCaracas t) t)" by (simp add: w_def Day_segundos)
  have wb: "3 * msPerDay \<le> w" "w < 253402300800000"
    using assms(2,3) segundos_cotas [of "LocalTime (tzaCaracas t) t"] tzaCaracas_cotas [of t]
    by (simp_all add: w_def LocalTime_def msPerDay_def)
  have s: "setDate tza (Fecha (w - tza)) (Some (DateFromTime w - k))
           = Fecha (w - k * msPerDay - tza)"
    using assms(1,4) wb
    by (auto simp: l MakeDay_de_campos MakeDate_campos TimeClip_def UTC_def msPerDay_def Let_def)
  have l2: "LocalTime tza (w - k * msPerDay - tza) = w - k * msPerDay"
    by (simp add: LocalTime_def)
  have r: "0 \<le> Day w - k" "Day w - k < 2932897"
    using Day_Caracas [OF assms(2,3)] assms(4) dw by auto
  have f: "toLocaleDateString_enCA tza (Fecha (w - k * msPerDay - tza))
        = fechaISO_de ((Day w - k) * msPerDay)"
    using toLocaleDateString_enCA_ISO [of tza "w - k * msPerDay - tza"] r
    by (simp add: l2 Day_menos)
  have g: "getDate tza (ahora_Caracas tza t) = Some (DateFromTime w)"
    by (simp add: a l)
  have "setDate tza (ahora_Caracas tza t)
          (map_option (\<lambda>d. d - k) (getDate tza (ahora_Caracas tza t)))
        = Fecha (w - k * msPerDay - tza)"
    unfolding g option.map using s by (simp only: a)
  then show ?thesis using f by (simp only: dw)
qed

lemma viernes: "WeekDay (n * msPerDay) = 1 \<Longrightarrow> WeekDay ((n - 3) * msPerDay) = 5"
  unfolding WeekDay_def Day_por_dia by presburger

lemma bisiesto_DaysInYear: "bisiesto y \<longleftrightarrow> DaysInYear y = 366"
proof -
  have m1: "y mod 4 = 0" if "y mod 100 = 0"
    using that mod_mod_cancel [of 4 100 y] by simp
  have m2: "y mod 100 = 0" if "y mod 400 = 0"
    using that mod_mod_cancel [of 100 400 y] by simp
  show ?thesis using m1 m2 by (auto simp: bisiesto_def DaysInYear_def)
qed

lemma campos_en_el_anio:
  assumes "0 \<le> e" and "e < DaysInYear y"
  shows "YearFromTime ((DayFromYear y + e) * msPerDay) = y"
    and "DayWithinYear ((DayFromYear y + e) * msPerDay) = e"
    and "InLeapYear ((DayFromYear y + e) * msPerDay) = (if DaysInYear y = 366 then 1 else 0)"
proof -
  have "YearFromDay (DayFromYear y + e) = y"
    using assms by (intro YearFromDay_unico) (simp_all add: DayFromYear_siguiente)
  then show y: "YearFromTime ((DayFromYear y + e) * msPerDay) = y"
    by (simp add: YearFromTime_def Day_por_dia)
  show "DayWithinYear ((DayFromYear y + e) * msPerDay) = e"
    by (simp add: DayWithinYear_def y Day_por_dia)
  show "InLeapYear ((DayFromYear y + e) * msPerDay) = (if DaysInYear y = 366 then 1 else 0)"
    by (simp add: InLeapYear_def y)
qed

lemma MakeDay_ultimo:
  assumes "1 \<le> m" and "m \<le> 12"
  shows "MakeDay y m 0
         = DayFromYear y
           + ((if m = 12 then DaysInYear y
               else inicioMes (if DaysInYear y = 366 then 1 else 0) m) - 1)"
proof (cases "m = 12")
  case True
  then show ?thesis
    by (simp add: MakeDay_def DayFromYear_siguiente inicioMes_def)
next
  case False
  with assms have "m div 12 = 0" "m mod 12 = m" by simp_all
  with False show ?thesis by (simp add: MakeDay_def)
qed

lemma tabla_meses:
  fixes m l :: int
  assumes "m = 1 \<or> m = 2 \<or> m = 3 \<or> m = 4 \<or> m = 5 \<or> m = 6 \<or> m = 7 \<or> m = 8 \<or> m = 9
           \<or> m = 10 \<or> m = 11 \<or> m = 12"
    and "l = 0 \<or> l = 1"
  shows "(if m = 12 then 365 + l else inicioMes l m) - 1 - inicioMes l (m - 1) + 1
         = (if m = 2 then (if l = 1 then 29 else 28)
            else if m = 4 \<or> m = 6 \<or> m = 9 \<or> m = 11 then 30 else 31)"
    and "0 \<le> (if m = 12 then 365 + l else inicioMes l m) - 1"
    and "(if m = 12 then 365 + l else inicioMes l m) - 1 < 365 + l"
  using assms by (elim disjE; simp add: inicioMes_def)+

lemma tabla_mes_de_dia:
  fixes m l e :: int
  assumes "m = 1 \<or> m = 2 \<or> m = 3 \<or> m = 4 \<or> m = 5 \<or> m = 6 \<or> m = 7 \<or> m = 8 \<or> m = 9
           \<or> m = 10 \<or> m = 11 \<or> m = 12"
    and "l = 0 \<or> l = 1"
    and "e = (if m = 12 then 365 + l else inicioMes l m) - 1"
  shows "(if e < 31 then 0 else if e < 59 + l then 1 else if e < 90 + l then 2
         else if e < 120 + l then 3 else if e < 151 + l then 4 else if e < 181 + l then 5
         else if e < 212 + l then 6 else if e < 243 + l then 7 else if e < 273 + l then 8
         else if e < 304 + l then 9 else if e < 334 + l then 10 else 11) = m - 1"
  using assms by (elim disjE; simp add: inicioMes_def)

lemma ultimo_dia:
  assumes "1 \<le> m" and "m \<le> 12"
  shows "DateFromTime (MakeDay y m 0 * msPerDay) = dias_del_mes y m"
proof -
  define l :: int where "l = (if DaysInYear y = 366 then 1 else 0)"
  define e where "e = (if m = 12 then DaysInYear y else inicioMes l m) - 1"
  have m: "m = 1 \<or> m = 2 \<or> m = 3 \<or> m = 4 \<or> m = 5 \<or> m = 6 \<or> m = 7 \<or> m = 8 \<or> m = 9
           \<or> m = 10 \<or> m = 11 \<or> m = 12"
    using assms by presburger
  have d: "DaysInYear y = 365 + l"
    using DaysInYear_valores [of y] by (auto simp: l_def)
  have l: "l = 0 \<or> l = 1" by (simp add: l_def)
  have e': "e = (if m = 12 then 365 + l else inicioMes l m) - 1"
    by (simp add: e_def d)
  have e: "0 \<le> e" "e < DaysInYear y"
    using tabla_meses(2,3) [OF m l] by (simp_all add: e' d)
  have D: "MakeDay y m 0 = DayFromYear y + e"
    using MakeDay_ultimo [OF assms, of y] by (simp add: e_def l_def)
  note c = campos_en_el_anio [OF e, folded l_def]
  have b: "bisiesto y \<longleftrightarrow> l = 1"
    using bisiesto_DaysInYear [of y] by (simp add: l_def)
  have mo0: "MonthFromTime ((DayFromYear y + e) * msPerDay)
     = (if e < 31 then 0 else if e < 59 + l then 1 else if e < 90 + l then 2
         else if e < 120 + l then 3 else if e < 151 + l then 4 else if e < 181 + l then 5
         else if e < 212 + l then 6 else if e < 243 + l then 7 else if e < 273 + l then 8
         else if e < 304 + l then 9 else if e < 334 + l then 10 else 11)"
    by (simp only: MonthFromTime_def c Let_def)
  have mo: "MonthFromTime ((DayFromYear y + e) * msPerDay) = m - 1"
    unfolding mo0 using tabla_mes_de_dia [OF m l e'] .
  have "e - inicioMes l (m - 1) + 1 = dias_del_mes y m"
    using tabla_meses(1) [OF m l] by (simp add: e' dias_del_mes_def b)
  then show ?thesis
    by (simp only: D DateFromTime_def c mo)
qed

lemma MakeDay_ultimo_rango:
  assumes "1 \<le> m" and "m \<le> 12"
  shows "DayFromYear y \<le> MakeDay y m 0" "MakeDay y m 0 < DayFromYear (y + 1)"
proof -
  define l :: int where "l = (if DaysInYear y = 366 then 1 else 0)"
  have m: "m = 1 \<or> m = 2 \<or> m = 3 \<or> m = 4 \<or> m = 5 \<or> m = 6 \<or> m = 7 \<or> m = 8 \<or> m = 9
           \<or> m = 10 \<or> m = 11 \<or> m = 12"
    using assms by presburger
  have d: "DaysInYear y = 365 + l"
    using DaysInYear_valores [of y] by (auto simp: l_def)
  have l: "l = 0 \<or> l = 1" by (simp add: l_def)
  have D: "MakeDay y m 0 = DayFromYear y + ((if m = 12 then 365 + l else inicioMes l m) - 1)"
    using MakeDay_ultimo [OF assms, of y] DaysInYear_valores [of y] by (auto simp: l_def)
  show "DayFromYear y \<le> MakeDay y m 0"
    using tabla_meses(2) [OF m l] by (simp add: D)
  show "MakeDay y m 0 < DayFromYear (y + 1)"
    using tabla_meses(3) [OF m l] by (simp add: D DayFromYear_siguiente d)
qed

lemma bisiesto_siglo_XX: "1 \<le> y \<Longrightarrow> y \<le> 99 \<Longrightarrow> bisiesto (1900 + y) = bisiesto y"
proof -
  assume a: "1 \<le> y" "y \<le> 99"
  have 4: "(1900 + y) mod 4 = y mod 4"
    using mod_add_left_eq [of 1900 4 y] by simp
  have c: "(1900 + y) mod 100 = y mod 100"
    using mod_add_left_eq [of 1900 100 y] by simp
  have n: "y mod 100 \<noteq> 0" using a by simp
  show ?thesis by (simp add: bisiesto_def 4 c n)
qed

lemma lastDay_de_valor:
  assumes "split (CHR ''-'') mesString = anio # mes # resto"
    and "ToNumber anio = Some y" and "ToNumber mes = Some m"
    and "1 \<le> y" and "y \<le> 9999" and "1 \<le> m" and "m \<le> 12"
    and "\<bar>tza\<bar> \<le> msPerDay"
  shows "lastDay_de tza mesString = Some (dias_del_mes y m)"
proof -
  define yr where "yr = (if 0 \<le> y \<and> y \<le> 99 then 1900 + y else y)"
  have yr: "100 \<le> yr" "yr \<le> 9999" using assms(4,5) by (auto simp: yr_def)
  have dm: "dias_del_mes yr m = dias_del_mes y m"
    using bisiesto_siglo_XX [of y] assms(4) by (auto simp: yr_def dias_del_mes_def)
  define D where "D = MakeDay yr m 0"
  have "DayFromYear 100 \<le> DayFromYear yr"
    using DayFromYear_mono [of 100 yr] yr(1) by (cases "yr = 100") auto
  moreover have "DayFromYear (yr + 1) \<le> DayFromYear 10000"
    using DayFromYear_mono [of "yr + 1" 10000] yr(2) by (cases "yr + 1 = 10000") auto
  moreover have "DayFromYear 100 = - 683003" "DayFromYear 10000 = 2932897"
    by (simp_all add: DayFromYear_def)
  ultimately have Db: "- 683003 \<le> D" "D < 2932897"
    using MakeDay_ultimo_rango [OF assms(6,7), of yr] by (simp_all add: D_def)
  have n: "nuevaFecha tza (Some y) (Some m) (Some 0) = Fecha (D * msPerDay - tza)"
    using Db assms(8)
    by (simp add: nuevaFecha_def yr_def [symmetric] D_def [symmetric] Let_def TimeClip_def
                  UTC_def MakeDate_def msPerDay_def)
  have g: "DateFromTime (LocalTime tza (D * msPerDay - tza)) = dias_del_mes yr m"
    using ultimo_dia [OF assms(6,7), of yr] by (simp add: LocalTime_def D_def)
  show ?thesis
    using assms(1-3) by (simp add: lastDay_de_def n g dm)
qed

lemma partes_2024_02:
  "split (CHR ''-'') ''2024-02'' = [''2024'', ''02'']"
  "ToNumber ''2024'' = Some 2024" "ToNumber ''02'' = Some 2"
  "dias_del_mes 2024 2 = 29" "String_int 29 = ''29''"
  by code_simp+

lemma getDatosReporteMensual_eq:
  assumes "lastDay_de tza mesString = Some n"
  shows "getDatosReporteMensual tza st mesString
         = filter (\<lambda>s. mesString @ ''-01'' \<le> fecha_solicitud s
                      \<and> fecha_solicitud s \<le> mesString @ ''-'' @ String_int n)
                  (solicitudes st)"
    and "getDatosReporteMensual_supabase tza bd mesString
         = (case selecciona_rango bd (mesString @ ''-01'') (mesString @ ''-'' @ String_int n) of
              Falla e \<Rightarrow> [] | Exito data \<Rightarrow> data)"
  using assms
  by (simp_all add: getDatosReporteMensual_def getDatosReporteMensual_supabase_def
                    startDate_de_def endDate_de_def String_number_def)

lemma String_nat_corto:
  "n < 10 \<Longrightarrow> length (String_nat n) = 1"
  "n < 100 \<Longrightarrow> length (String_nat n) \<le> 2"
  "n < 1000 \<Longrightarrow> length (String_nat n) \<le> 3"
  "n < 10000 \<Longrightarrow> length (String_nat n) \<le> 4"
proof -
  show 1: "length (String_nat n) = 1" if "n < 10" for n
    using that by (subst String_nat.simps) simp
  show 2: "length (String_nat n) \<le> 2" if "n < 100" for n
    using that 1 [of "n div 10"] by (subst String_nat.simps) simp
  show 3: "length (String_nat n) \<le> 3" if "n < 1000" for n
    using that 2 [of "n div 10"] by (subst String_nat.simps) simp
  show "length (String_nat n) \<le> 4" if "n < 10000"
    using that 3 [of "n div 10"] by (subst String_nat.simps) simp
qed

lemma pad2_largo: "0 \<le> x \<Longrightarrow> x \<le> 99 \<Longrightarrow> length (pad2 x) = 2"
  using String_nat_corto(2) [of "nat x"] String_nat_largo(2) [of "nat x"]
  by (auto simp: pad2_def padStart_def String_int_def)

lemma anioISO_largo: "0 \<le> y \<Longrightarrow> y \<le> 9999 \<Longrightarrow> length (anioISO y) = 4"
  using String_nat_corto(4) [of "nat y"]
  by (auto simp: anioISO_def padStart_def String_int_def)

lemma DayWithinYear_cotas:
  "0 \<le> DayWithinYear t" "DayWithinYear t < DaysInYear (YearFromTime t)"
  using YearFromDay_cotas [of "Day t"]
  by (simp_all add: DayWithinYear_def YearFromTime_def DayFromYear_siguiente)

lemma tabla_fecha:
  fixes d l :: int
  assumes "0 \<le> d" and "d < 365 + l" and "l = 0 \<or> l = 1"
  shows "1 \<le> d - inicioMes l
            (if d < 31 then 0 else if d < 59 + l then 1 else if d < 90 + l then 2
         else if d < 120 + l then 3 else if d < 151 + l then 4 else if d < 181 + l then 5
         else if d < 212 + l then 6 else if d < 243 + l then 7 else if d < 273 + l then 8
         else if d < 304 + l then 9 else if d < 334 + l then 10 else 11) + 1"
    and "d - inicioMes l
            (if d < 31 then 0 else if d < 59 + l then 1 else if d < 90 + l then 2
         else if d < 120 + l then 3 else if d < 151 + l then 4 else if d < 181 + l then 5
         else if d < 212 + l then 6 else if d < 243 + l then 7 else if d < 273 + l then 8
         else if d < 304 + l then 9 else if d < 334 + l then 10 else 11) + 1 \<le> 31"
  using assms by (elim disjE; simp add: inicioMes_def)+

lemma DateFromTime_cotas: "1 \<le> DateFromTime t" "DateFromTime t \<le> 31"
proof -
  define l where "l = InLeapYear t"
  define d where "d = DayWithinYear t"
  have l: "l = 0 \<or> l = 1" by (simp add: l_def InLeapYear_def)
  have d: "0 \<le> d" "d < 365 + l"
    using DayWithinYear_cotas [of t] DaysInYear_valores [of "YearFromTime t"]
    by (auto simp: d_def l_def InLeapYear_def)
  have e: "DateFromTime t = d - inicioMes l
            (if d < 31 then 0 else if d < 59 + l then 1 else if d < 90 + l then 2
         else if d < 120 + l then 3 else if d < 151 + l then 4 else if d < 181 + l then 5
         else if d < 212 + l then 6 else if d < 243 + l then 7 else if d < 273 + l then 8
         else if d < 304 + l then 9 else if d < 334 + l then 10 else 11) + 1"
    by (simp only: DateFromTime_def MonthFromTime_def Let_def d_def l_def)
  show "1 \<le> DateFromTime t" unfolding e using tabla_fecha(1) [OF d l] .
  show "DateFromTime t \<le> 31" unfolding e using tabla_fecha(2) [OF d l] .
qed

lemma fechaISO_de_largo:
  assumes "0 \<le> YearFromTime t" and "YearFromTime t \<le> 9999"
  shows "length (fechaISO_de t) = 10"
  using anioISO_largo [OF assms] MonthFromTime_cotas [of t] DateFromTime_cotas [of t]
  by (simp add: fechaISO_de_def pad2_largo)

subsection \<open>Reports\<close>

text \<open>
  Claim C6. For a month string \<^verbatim>\<open>YYYY-MM\<close> (a year from 1 to 9999, a month from 1 to
  12), the last day both stores compute is the calendar's: 28, 29, 30 or 31 by month and
  leap year. \<open>getDatosReporteMensual\<close> returns exactly the requests whose
  \<^verbatim>\<open>fecha_solicitud\<close> lies between the first and that last day of the month, both
  included, in the order of the date texts; the durable store asks for the same range.
  For \<^verbatim>\<open>"2024-02"\<close> these are the requests from \<^verbatim>\<open>2024-02-01\<close> to \<^verbatim>\<open>2024-02-29\<close>.
\<close>

theorem reporte_mensual:
  assumes "split (CHR ''-'') mesString = anio # mes # resto"
    and "ToNumber anio = Some y" and "ToNumber mes = Some m"
    and "1 \<le> y" and "y \<le> 9999" and "1 \<le> m" and "m \<le> 12"
    and "\<bar>tza\<bar> \<le> msPerDay"
  shows "lastDay_de tza mesString = Some (dias_del_mes y m)
       \<and> getDatosReporteMensual tza st mesString
           = filter (\<lambda>s. mesString @ ''-01'' \<le> fecha_solicitud s
                        \<and> fecha_solicitud s \<le> mesString @ ''-'' @ String_int (dias_del_mes y m))
                    (solicitudes st)
       \<and> getDatosReporteMensual_supabase tza bd mesString
           = (case selecciona_rango bd (mesString @ ''-01'')
                     (mesString @ ''-'' @ String_int (dias_del_mes y m)) of
                Falla e \<Rightarrow> [] | Exito data \<Rightarrow> data)
       \<and> (en_linea bd \<longrightarrow>
            getDatosReporteMensual_supabase tza bd mesString
              = filter (\<lambda>s. mesString @ ''-01'' \<le> fecha_solicitud s
                           \<and> fecha_solicitud s \<le> mesString @ ''-'' @ String_int (dias_del_mes y m))
                       (tabla_solicitudes bd))
       \<and> getDatosReporteMensual tza st ''2024-02''
           = filter (\<lambda>s. ''2024-02-01'' \<le> fecha_solicitud s \<and> fecha_solicitud s \<le> ''2024-02-29'')
                    (solicitudes st)"
proof -
  note v = lastDay_de_valor [OF assms]
  note e = getDatosReporteMensual_eq [OF v]
  have o: "getDatosReporteMensual_supabase tza bd mesString
              = filter (\<lambda>s. mesString @ ''-01'' \<le> fecha_solicitud s
                           \<and> fecha_solicitud s \<le> mesString @ ''-'' @ String_int (dias_del_mes y m))
                       (tabla_solicitudes bd)" if "en_linea bd"
    using that by (simp add: e(2) selecciona_rango_def)
  have "lastDay_de tza ''2024-02'' = Some 29"
    using lastDay_de_valor [of "''2024-02''" "''2024''" "''02''" "[]" 2024 2 tza] assms(8)
    by (simp add: partes_2024_02)
  from getDatosReporteMensual_eq(1) [OF this, of st]
  have f: "getDatosReporteMensual tza st ''2024-02''
           = filter (\<lambda>s. ''2024-02-01'' \<le> fecha_solicitud s \<and> fecha_solicitud s \<le> ''2024-02-29'')
                    (solicitudes st)"
    by (simp add: partes_2024_02)
  from v e o f show ?thesis by blast
qed

theorem reporte_mensual_witness:
  "split (CHR ''-'') ''2024-02'' = ''2024'' # ''02'' # []
   \<and> ToNumber ''2024'' = Some 2024 \<and> ToNumber ''02'' = Some 2
   \<and> \<bar>0\<bar> \<le> msPerDay \<and> en_linea bd_vacia
   \<and> lastDay_de 0 ''2024-02'' = Some 29
   \<and> map fecha_solicitud (solicitudes historial)
       = [''2024-01-31'', ''2024-02-01'', ''2024-02-29'', ''2024-03-01'']
   \<and> map fecha_solicitud (getDatosReporteMensual 0 historial ''2024-02'')
       = [''2024-02-01'', ''2024-02-29'']
   \<and> getDatosReporteMensual_supabase 0 bd_vacia ''2024-02'' = []"
proof -
  have z: "\<bar>0\<bar> \<le> msPerDay" by (simp add: msPerDay_def)
  have y: "(1::int) \<le> 2024" "(2024::int) \<le> 9999" "(1::int) \<le> 2" "(2::int) \<le> 12" by simp_all
  have o: "en_linea bd_vacia" by (simp add: bd_vacia_def)
  note A = reporte_mensual [OF partes_2024_02(1,2,3) y z, of historial bd_vacia]
  from A have g1: "lastDay_de 0 ''2024-02'' = Some 29" by (simp add: partes_2024_02)
  have s: "map fecha_solicitud (solicitudes historial)
       = [''2024-01-31'', ''2024-02-01'', ''2024-02-29'', ''2024-03-01'']"
    by (simp add: historial_def registro_def datos_de_def)
  from A have "getDatosReporteMensual 0 historial ''2024-02''
           = filter (\<lambda>s. ''2024-02-01'' \<le> fecha_solicitud s \<and> fecha_solicitud s \<le> ''2024-02-29'')
                    (solicitudes historial)" by blast
  then have g2: "map fecha_solicitud (getDatosReporteMensual 0 historial ''2024-02'')
       = [''2024-02-01'', ''2024-02-29'']"
    by (simp add: historial_def registro_def datos_de_def)
  from A o have "getDatosReporteMensual_supabase 0 bd_vacia ''2024-02''
      = filter (\<lambda>s. ''2024-02'' @ ''-01'' \<le> fecha_solicitud s
                   \<and> fecha_solicitud s \<le> ''2024-02'' @ ''-'' @ String_int (dias_del_mes 2024 2))
               (tabla_solicitudes bd_vacia)" by blast
  then have g3: "getDatosReporteMensual_supabase 0 bd_vacia ''2024-02'' = []"
    by (simp add: bd_vacia_def)
  from partes_2024_02(1,2,3) z o g1 s g2 g3 show ?thesis by simp
qed

text \<open>
  Claim C9. \<open>getReportDateString\<close> returns the date three days before the trigger day
  when the trigger day, on the wall clock of Caracas, is a Monday, which is the Friday
  before, and the day before the trigger day on every other weekday, written as
  \<^verbatim>\<open>YYYY-MM-DD\<close>, ten characters. The wall clock is taken at the offset the zone has at
  the trigger instant, UTC-04:30 between December 2007 and May 2016 and UTC-04:00
  otherwise; the trigger instant lies between 1970-01-05 and the end of the year 9999.
\<close>

theorem fecha_del_reporte:
  assumes "\<bar>tza\<bar> \<le> msPerDay" and "4 * msPerDay \<le> t" and "t < 253402300800000"
  shows "getReportDateString tza t
           = fechaISO_de ((Day (LocalTime (tzaCaracas t) t)
                           - (if WeekDay (LocalTime (tzaCaracas t) t) = 1 then 3 else 1))
                          * msPerDay)
       \<and> (WeekDay (LocalTime (tzaCaracas t) t) = 1
            \<longrightarrow> WeekDay ((Day (LocalTime (tzaCaracas t) t) - 3) * msPerDay) = 5)
       \<and> length (getReportDateString tza t) = 10"
proof -
  let ?x = "LocalTime (tzaCaracas t) t"
  let ?k = "if WeekDay ?x = 1 then 3 else 1 :: int"
  have a: "ahora_Caracas tza t = Fecha (?x div 1000 * 1000 - tza)"
    using ahora_Caracas_valor [OF assms] .
  have g: "getDay tza (ahora_Caracas tza t) = Some (WeekDay ?x)"
    using campos_por_dia(4) [OF Day_segundos [of ?x]] by (simp add: a LocalTime_def)
  have 1: "getReportDateString tza t = fechaISO_de ((Day ?x - ?k) * msPerDay)"
    using reporte_k [OF assms, of 3] reporte_k [OF assms, of 1]
    by (simp add: getReportDateString_def g Let_def)
  have 2: "WeekDay ((Day ?x - 3) * msPerDay) = 5" if "WeekDay ?x = 1"
    using viernes [of "Day ?x"] that campos_por_dia(4) [of ?x "Day ?x * msPerDay"]
    by (simp add: Day_por_dia)
  have r: "0 \<le> Day ?x - ?k" "Day ?x - ?k < 2932897"
    using Day_Caracas [OF assms(2,3)] by auto
  have "1970 \<le> YearFromTime ((Day ?x - ?k) * msPerDay)"
       "YearFromTime ((Day ?x - ?k) * msPerDay) \<le> 9999"
    using YearFromDay_rango [OF r] by (simp_all only: YearFromTime_def Day_por_dia)
  then have 3: "length (getReportDateString tza t) = 10"
    unfolding 1 by (intro fechaISO_de_largo) simp_all
  from 1 2 3 show ?thesis by blast
qed

theorem fecha_del_reporte_witness:
  "\<bar>0\<bar> \<le> msPerDay \<and> 4 * msPerDay \<le> 1704726000000
   \<and> (1704726000000 :: int) < 253402300800000
   \<and> WeekDay (LocalTime (tzaCaracas 1704726000000) 1704726000000) = 1
   \<and> getReportDateString 0 1704726000000 = ''2024-01-05''
   \<and> WeekDay ((Day (LocalTime (tzaCaracas 1704726000000) 1704726000000) - 3) * msPerDay) = 5
   \<and> WeekDay (LocalTime (tzaCaracas 1704812400000) 1704812400000) = 2
   \<and> getReportDateString 0 1704812400000 = ''2024-01-08''
   \<and> tzaCaracas 1262578500000 = - 16200000
   \<and> WeekDay (LocalTime (tzaCaracas 1262578500000) 1262578500000) = 0
   \<and> getReportDateString 0 1262578500000 = ''2010-01-02''"
proof -
  have h: "\<bar>0\<bar> \<le> msPerDay" "4 * msPerDay \<le> 1704726000000"
    "(1704726000000 :: int) < 253402300800000"
    "4 * msPerDay \<le> 1704812400000" "(1704812400000 :: int) < 253402300800000"
    "4 * msPerDay \<le> 1262578500000" "(1262578500000 :: int) < 253402300800000"
    by (simp_all add: msPerDay_def)
  have w: "WeekDay (LocalTime (tzaCaracas 1704726000000) 1704726000000) = 1"
    "WeekDay (LocalTime (tzaCaracas 1704812400000) 1704812400000) = 2"
    "WeekDay (LocalTime (tzaCaracas 1262578500000) 1262578500000) = 0"
    "tzaCaracas 1262578500000 = - 16200000"
    by code_simp+
  have f: "fechaISO_de ((Day (LocalTime (tzaCaracas 1704726000000) 1704726000000) - 3) * msPerDay)
             = ''2024-01-05''"
    "fechaISO_de ((Day (LocalTime (tzaCaracas 1704812400000) 1704812400000) - 1) * msPerDay)
             = ''2024-01-08''"
    "fechaISO_de ((Day (LocalTime (tzaCaracas 1262578500000) 1262578500000) - 1) * msPerDay)
             = ''2010-01-02''"
    by code_simp+
  note A = fecha_del_reporte [OF h(1,2,3)]
  note B = fecha_del_reporte [OF h(1,4,5)]
  note C = fecha_del_reporte [OF h(1,6,7)]
  from A w(1) f(1) have g1: "getReportDateString 0 1704726000000 = ''2024-01-05''" by simp
  from A w(1)
  have g2: "WeekDay ((Day (LocalTime (tzaCaracas 1704726000000) 1704726000000) - 3) * msPerDay) = 5"
    by blast
  from B w(2) f(2) have g3: "getReportDateString 0 1704812400000 = ''2024-01-08''" by simp
  from C w(3) f(3) have g4: "getReportDateString 0 1262578500000 = ''2010-01-02''" by simp
  from h w g1 g2 g3 g4 show ?thesis by blast
qed

subsection \<open>The two stores\<close>

















end
